theory Spec2Isabelle
  imports Complex_Main
begin

section \<open>Values and errors\<close>

text \<open>
  The estimators of \<^verbatim>\<open>rate_methods.py\<close> work on NumPy arrays of double-precision
  numbers. The embedding idealises a finite double as a \<^typ>\<open>real\<close> (no rounding, no
  overflow); a one-dimensional array is a list. Where NumPy produces \<^verbatim>\<open>inf\<close> or
  \<^verbatim>\<open>nan\<close> instead of raising (division by zero, logarithm of a non-positive number;
  the module silences the warnings), the model returns \<open>NonFinite\<close>.
  Exceptions are values: \<open>Inl\<close> of the exception's class.
\<close>

datatype py_error = IndexError | ValueError | NameError | TypeError | RuntimeError

datatype npval = Num real | NonFinite

text \<open>\<^verbatim>\<open>event.sum()\<close> on a boolean array counts the \<^verbatim>\<open>True\<close> entries.\<close>

definition bool_sum :: "bool list \<Rightarrow> nat" where
  "bool_sum event = length (filter (\<lambda>b. b) event)"

text \<open>
  \<^verbatim>\<open>a[event]\<close> with a boolean array keeps the entries at the \<^verbatim>\<open>True\<close> positions, in
  order; NumPy raises \<^verbatim>\<open>IndexError\<close> when the mask's length differs from the array's.
\<close>

definition bool_index :: "'a list \<Rightarrow> bool list \<Rightarrow> py_error + 'a list" where
  "bool_index a event =
     (if length event \<noteq> length a then Inl IndexError
      else Inr (map fst (filter snd (zip a event))))"

text \<open>\<^verbatim>\<open>np.arange(1, M+1) / N\<close>: the ordinates \<open>1/N, 2/N, ..., M/N\<close>.\<close>

definition arange_div :: "nat \<Rightarrow> nat \<Rightarrow> real list" where
  "arange_div M N = map (\<lambda>i. real i / real N) [1..<M + 1]"

text \<open>
  In-place \<^verbatim>\<open>times *= acc\<close>: \<open>acc\<close> is broadcast against \<open>times\<close>; it must have the same
  length or length one, otherwise NumPy raises \<^verbatim>\<open>ValueError\<close> and \<open>times\<close> is untouched.
\<close>

definition imul :: "real list \<Rightarrow> real list \<Rightarrow> py_error + real list" where
  "imul tms acc =
     (if length acc = length tms then Inr (map (\<lambda>(x, a). x * a) (zip tms acc))
      else if length acc = 1 then Inr (map (\<lambda>x. x * hd acc) tms)
      else Inl ValueError)"

text \<open>Division of two NumPy floats: a zero divisor gives \<^verbatim>\<open>inf\<close> or \<^verbatim>\<open>nan\<close>, never an exception.\<close>

definition np_div :: "real \<Rightarrow> real \<Rightarrow> npval" where
  "np_div a b = (if b = 0 then NonFinite else Num (a / b))"

section \<open>Infrequent metadynamics\<close>

text \<open>
  \<^verbatim>\<open>iMetaD_invMRT(times, event, rescale=False, acc=None)\<close>. The array \<open>times\<close> is the
  caller's object, and \<^verbatim>\<open>times *= acc\<close> writes into it, so the model returns the array as
  it is after the call next to what was printed and what was returned. The early
  \<^verbatim>\<open>return None\<close> is the result \<open>Inr None\<close>.
\<close>

record invMRT_result =
  times_after :: "real list"
  printed :: "string list"
  returned :: "py_error + npval option"

definition msg_need_acc :: string where
  "msg_need_acc = ''You need to provide the acceleration factors if rescale is True. If your times are already rescaled, set rescale to False.''"

definition msg_acc_unused :: string where
  "msg_acc_unused = ''Not using the provided acceleration factors. If you want to rescale the times, set rescale to True.''"

definition invMRT_value :: "real list \<Rightarrow> bool list \<Rightarrow> py_error + npval option" where
  "invMRT_value tms event =
     (case bool_index tms event of
        Inl e \<Rightarrow> Inl e
      | Inr sel \<Rightarrow> Inr (Some (np_div (real (bool_sum event)) (sum_list sel))))"

definition iMetaD_invMRT ::
  "real list \<Rightarrow> bool list \<Rightarrow> bool \<Rightarrow> real list option \<Rightarrow> invMRT_result" where
  "iMetaD_invMRT tms event rescale acc =
     (if rescale \<and> acc \<noteq> None then
        (case imul tms (the acc) of
           Inl e \<Rightarrow> \<lparr>times_after = tms, printed = [], returned = Inl e\<rparr>
         | Inr times' \<Rightarrow>
             \<lparr>times_after = times', printed = [], returned = invMRT_value times' event\<rparr>)
      else if rescale then
        \<lparr>times_after = tms, printed = [msg_need_acc], returned = Inr None\<rparr>
      else if acc \<noteq> None then
        \<lparr>times_after = tms, printed = [msg_acc_unused],
         returned = invMRT_value tms event\<rparr>
      else
        \<lparr>times_after = tms, printed = [], returned = invMRT_value tms event\<rparr>)"

text \<open>\<^verbatim>\<open>iMetaD_CDF(t, k)\<close>, elementwise over the array \<open>t\<close>.\<close>

definition iMetaD_CDF :: "real list \<Rightarrow> real \<Rightarrow> real list" where
  "iMetaD_CDF t k = map (\<lambda>x. 1 - exp (- k * x)) t"

text \<open>
  \<^verbatim>\<open>iMetaD_FitCDF(times, event, k_guess)\<close>. SciPy's \<^verbatim>\<open>optimize.curve_fit\<close> is not part
  of the repository: it is the parameter \<open>curve_fit\<close>, called with the model function,
  the abscissae, the ordinates and the start value, and giving the fitted rate or an
  exception.
\<close>

type_synonym curve_fit1 =
  "(real list \<Rightarrow> real \<Rightarrow> real list) \<Rightarrow> real list \<Rightarrow> real list \<Rightarrow> real \<Rightarrow> py_error + real"

definition iMetaD_FitCDF :: "curve_fit1 \<Rightarrow> real list \<Rightarrow> bool list \<Rightarrow> real \<Rightarrow> py_error + real" where
  "iMetaD_FitCDF curve_fit tms event k_guess =
     (let M = bool_sum event;
          N = length event
      in case bool_index tms event of
           Inl e \<Rightarrow> Inl e
         | Inr sel \<Rightarrow>
             (let ecdfx = sort sel;
                  ecdfy = arange_div M N
              in curve_fit iMetaD_CDF ecdfx ecdfy k_guess))"

section \<open>Numerical primitives\<close>

text \<open>
  SciPy is outside the repository. Its routines are the fields of an environment that
  every estimator receives:
  \<^item> \<open>quad f a b\<close> is \<^verbatim>\<open>integrate.quad(f, a, b)[0]\<close>;
  \<^item> \<open>minimize_scalar f\<close> is \<^verbatim>\<open>optimize.minimize_scalar(f).x\<close>, the abscissa found;
  \<^item> \<open>minimize_bounded f bounds\<close> is
    \<^verbatim>\<open>optimize.minimize_scalar(f, bounds=bounds, method='bounded').x\<close>;
  \<^item> \<open>UnivariateSpline x y\<close> is \<^verbatim>\<open>interpolate.UnivariateSpline(x, y, s=0, ext=3)\<close>;
  \<^item> \<open>curve_fit f x y p0 (lower, upper)\<close> is
    \<^verbatim>\<open>optimize.curve_fit(f, x, y, p0=p0, bounds=(lower, upper))[0]\<close> for a model with the
    two parameters \<open>(k0, gamma)\<close>; a bound on \<open>k0\<close> is \<open>None\<close> where it is infinite;
  \<^item> \<open>minimize f x0\<close> is \<^verbatim>\<open>optimize.minimize(f, x0).x\<close>.
  An entry of an array handed to the spline constructor is \<open>None\<close> where the array holds
  no number (a masked or not-a-number entry, or Python's \<^verbatim>\<open>None\<close>).
\<close>

type_synonym spline = "real \<Rightarrow> real"

record scipy =
  quad :: "(real \<Rightarrow> real) \<Rightarrow> real \<Rightarrow> real \<Rightarrow> real"
  minimize_scalar :: "(real \<Rightarrow> real) \<Rightarrow> real"
  minimize_bounded :: "(real \<Rightarrow> py_error + npval) \<Rightarrow> real \<times> real \<Rightarrow> py_error + real"
  UnivariateSpline :: "real option list \<Rightarrow> real option list \<Rightarrow> py_error + spline"
  curve_fit :: "(real list \<Rightarrow> real \<Rightarrow> real \<Rightarrow> py_error + real list) \<Rightarrow> real list \<Rightarrow> real list
                 \<Rightarrow> real \<times> real \<Rightarrow> (real option \<times> real) \<times> (real option \<times> real)
                 \<Rightarrow> py_error + real \<times> real"
  minimize :: "(real \<times> real \<Rightarrow> py_error + real) \<Rightarrow> real \<times> real \<Rightarrow> py_error + real \<times> real"

text \<open>
  \<^verbatim>\<open>p = mp.Pool(cores); p.map(func, t); p.close()\<close>: the results come back in the order
  of the inputs; a pool of fewer than one process raises \<^verbatim>\<open>ValueError\<close>.
\<close>

definition pool_map :: "int \<Rightarrow> ('a \<Rightarrow> 'b) \<Rightarrow> 'a list \<Rightarrow> py_error + 'b list" where
  "pool_map cores func t = (if cores < 1 then Inl ValueError else Inr (map func t))"

definition neg_spline :: "real \<Rightarrow> spline \<Rightarrow> real" where
  "neg_spline x spline = -1 * spline x"

text \<open>\<^verbatim>\<open>np.arange(0, t, dt)\<close> with \<open>dt = 1\<close>: the points \<open>0, 1, ...\<close> below \<open>t\<close>.\<close>

definition np_arange :: "real \<Rightarrow> real list" where
  "np_arange t = map real [0..<nat \<lceil>t\<rceil>]"

text \<open>
  \<^verbatim>\<open>np.exp(a + np.log(s))\<close> for a sum \<open>s\<close> of exponentials: the sum of an empty array is
  \<open>0\<close>, its logarithm is \<^verbatim>\<open>-inf\<close> and the exponential of that is \<open>0\<close>.
\<close>

definition exp_add_log :: "real \<Rightarrow> real \<Rightarrow> real" where
  "exp_add_log a s = (if s = 0 then 0 else exp (a + ln s))"

text \<open>
  Elementwise difference of two arrays with NumPy's broadcasting: equal lengths, or one
  of the two of length one.
\<close>

definition np_sub :: "real list \<Rightarrow> real list \<Rightarrow> py_error + real list" where
  "np_sub a b =
     (if length a = length b then Inr (map (\<lambda>(x, y). x - y) (zip a b))
      else if length b = 1 then Inr (map (\<lambda>x. x - hd b) a)
      else if length a = 1 then Inr (map (\<lambda>y. hd a - y) b)
      else Inl ValueError)"

section \<open>Bias aggregation\<close>

text \<open>
  A replica's table \<^verbatim>\<open>data[i]\<close> is the list of its rows. \<^verbatim>\<open>data[i][:,c]\<close> is the column
  \<open>c\<close>, and fails when a row has no such column.
\<close>

type_synonym colvar = "real list list"

definition column :: "colvar \<Rightarrow> nat \<Rightarrow> py_error + real list" where
  "column d c =
     (if list_all (\<lambda>row. c < length row) d then Inr (map (\<lambda>row. row ! c) d)
      else Inl IndexError)"

text \<open>
  The padding of \<^verbatim>\<open>fill_vmb_data\<close> and \<^verbatim>\<open>fill_v_data\<close>: \<open>diff_rows\<close> entries of
  \<^verbatim>\<open>nan\<close> (here \<open>None\<close>) after the column, when \<open>0 < diff_rows\<close>.
\<close>

definition pad_nan :: "nat \<Rightarrow> real list \<Rightarrow> real option list" where
  "pad_nan colvars_maxrow_count column_data =
     (let diff_rows = int colvars_maxrow_count - int (length column_data)
      in if 0 < diff_rows then map Some column_data @ replicate (nat diff_rows) None
         else map Some column_data)"

text \<open>
  \<^verbatim>\<open>v_data[colvar_index,:] = x\<close>: the row has \<open>colvars_maxrow_count\<close> entries, and \<open>x\<close> is
  broadcast to it: it must have that length, or length one.
\<close>

definition assign_row :: "nat \<Rightarrow> 'a list \<Rightarrow> py_error + 'a list" where
  "assign_row colvars_maxrow_count x =
     (if length x = colvars_maxrow_count then Inr x
      else if length x = 1 then Inr (replicate colvars_maxrow_count (hd x))
      else Inl ValueError)"

text \<open>
  The loop \<^verbatim>\<open>for i in range(colvars_count)\<close> of both aggregation functions: it fills the
  rows in order and keeps the time axis of the last replica that supplies one.
\<close>

fun fill_loop ::
  "(nat \<Rightarrow> py_error + ('r \<times> real list option)) \<Rightarrow> nat list \<Rightarrow> 'r list \<Rightarrow> real list option
     \<Rightarrow> py_error + ('r list \<times> real list option)" where
  "fill_loop fill [] filled ix_col = Inr (filled, ix_col)"
| "fill_loop fill (i # rest) filled ix_col =
     (case fill i of
        Inl e \<Rightarrow> Inl e
      | Inr (row, i_ix_col) \<Rightarrow>
          fill_loop fill rest (filled @ [row]) (if i_ix_col \<noteq> None then i_ix_col else ix_col))"

text \<open>A two-dimensional array with not-a-number entries, and its number of columns.\<close>

record masked2d =
  ncols :: nat
  mrows :: "real option list list"

definition fill_v_data ::
  "colvar list \<Rightarrow> nat \<Rightarrow> nat \<Rightarrow> real \<Rightarrow> nat \<Rightarrow> py_error + (real option list \<times> real list option)" where
  "fill_v_data data colvars_maxrow_count biascol bias_shift colvar_index =
     (if length data \<le> colvar_index then Inl IndexError
      else case column (data ! colvar_index) biascol of
             Inl e \<Rightarrow> Inl e
           | Inr v_column_data \<Rightarrow>
               (case assign_row colvars_maxrow_count
                       (map (map_option (\<lambda>v. v + bias_shift))
                            (pad_nan colvars_maxrow_count v_column_data)) of
                  Inl e \<Rightarrow> Inl e
                | Inr row \<Rightarrow>
                    (case column (data ! colvar_index) 0 of
                       Inl e \<Rightarrow> Inl e
                     | Inr time_col \<Rightarrow>
                         Inr (row, if length time_col = colvars_maxrow_count
                                   then Some time_col else None))))"

definition inst_bias ::
  "colvar list \<Rightarrow> nat \<Rightarrow> nat \<Rightarrow> real \<Rightarrow> nat \<Rightarrow> real \<Rightarrow> py_error + (masked2d \<times> real list option)" where
  "inst_bias data colvars_count colvars_maxrow_count beta biascol bias_shift =
     (case fill_loop (fill_v_data data colvars_maxrow_count biascol bias_shift)
             [0..<colvars_count] [] None of
        Inl e \<Rightarrow> Inl e
      | Inr (filled, ix_col) \<Rightarrow>
          Inr (\<lparr>ncols = colvars_maxrow_count, mrows = filled\<rparr>, ix_col))"

definition fill_vmb_data ::
  "real list list \<Rightarrow> colvar list \<Rightarrow> nat \<Rightarrow> nat \<Rightarrow> py_error + (real option list \<times> real list option)" where
  "fill_vmb_data maxbias data colvars_maxrow_count colvar_index =
     (if length maxbias \<le> colvar_index then Inl IndexError
      else case assign_row colvars_maxrow_count
                  (pad_nan colvars_maxrow_count (maxbias ! colvar_index)) of
             Inl e \<Rightarrow> Inl e
           | Inr row \<Rightarrow>
               (if length data \<le> colvar_index then Inl IndexError
                else case column (data ! colvar_index) 0 of
                       Inl e \<Rightarrow> Inl e
                     | Inr time_col \<Rightarrow>
                         Inr (row, if length time_col = colvars_maxrow_count
                                   then Some time_col else None)))"

text \<open>
  \<^verbatim>\<open>np.ma.average\<close> along the replicas, for one time index: the mean of the entries that
  are numbers; no number when there is none.
\<close>

definition masked_average :: "real option list \<Rightarrow> real option" where
  "masked_average xs =
     (let vals = List.map_filter (\<lambda>x. x) xs
      in if vals = [] then None else Some (sum_list vals / real (length vals)))"

text \<open>
  \<^verbatim>\<open>np.vstack((ix_col, y)).T\<close>. With \<^verbatim>\<open>ix_col = None\<close> the first operand is the
  \<open>1 \<times> 1\<close> array holding \<^verbatim>\<open>None\<close>: the stacking fails unless \<open>y\<close> has one entry, and then
  the time of the only row is \<^verbatim>\<open>None\<close>.
\<close>

definition np_vstack_T ::
  "real list option \<Rightarrow> 'a list \<Rightarrow> py_error + (real option \<times> 'a) list" where
  "np_vstack_T ix_col y =
     (case ix_col of
        None \<Rightarrow> (if length y = 1 then Inr [(None, hd y)] else Inl ValueError)
      | Some x \<Rightarrow> (if length x = length y then Inr (zip (map Some x) y) else Inl ValueError))"

definition avg_max_bias ::
  "real list list \<Rightarrow> colvar list \<Rightarrow> nat \<Rightarrow> nat \<Rightarrow> real \<Rightarrow> real
     \<Rightarrow> py_error + (real option \<times> real option) list" where
  "avg_max_bias maxbias data colvars_count colvars_maxrow_count beta bias_shift =
     (case fill_loop (fill_vmb_data maxbias data colvars_maxrow_count)
             [0..<colvars_count] [] None of
        Inl e \<Rightarrow> Inl e
      | Inr (vmb_data, ix_col) \<Rightarrow>
          (let vmb_average =
                 map (\<lambda>j. masked_average (map (\<lambda>row. row ! j) vmb_data))
                     [0..<colvars_maxrow_count]
           in case np_vstack_T ix_col vmb_average of
                Inl e \<Rightarrow> Inl e
              | Inr stacked \<Rightarrow>
                  Inr (map (\<lambda>(tm, v). (tm, map_option (\<lambda>x. (x + bias_shift) * beta) v))
                           stacked)))"

section \<open>Kramers' time-dependent rate method (KTR)\<close>

definition KTR_calculate_cum_hazard :: "scipy \<Rightarrow> real \<Rightarrow> spline \<Rightarrow> bool \<Rightarrow> real \<Rightarrow> real" where
  "KTR_calculate_cum_hazard sp gamma spline logTrick t =
     (let dt = 1 in
      if logTrick then
        (let max_spline = minimize_scalar sp (\<lambda>x. neg_spline x spline);
             t_points = np_arange t
         in 0.5 * dt * (1 + exp (gamma * spline t)
              + 2 * exp_add_log (gamma * max_spline)
                      (sum_list (map (\<lambda>x. exp (gamma * spline x - gamma * max_spline))
                                     (tl t_points)))))
      else
        (let int_Veff = quad sp (\<lambda>x. exp (gamma * spline x)) 0 t
         in int_Veff))"

definition KTR_calculate_log_hazard :: "real \<Rightarrow> real list \<Rightarrow> spline \<Rightarrow> real list" where
  "KTR_calculate_log_hazard gamma t spline = (let Veff = map spline t in map (\<lambda>v. gamma * v) Veff)"

text \<open>
  The tail shared by \<^verbatim>\<open>KTR_calculate_log_l\<close> and \<^verbatim>\<open>EATR_calculate_log_l\<close>, whose last
  five lines are the same. With no transition \<open>mean_t\<close> is a quotient by zero, and with
  \<open>mean_t \<le> 0\<close> its logarithm is \<^verbatim>\<open>-inf\<close> or \<^verbatim>\<open>nan\<close>: the value returned is then
  \<^verbatim>\<open>nan\<close>.
\<close>

definition profile_log_l :: "real \<Rightarrow> bool list \<Rightarrow> real list \<Rightarrow> real list \<Rightarrow> real \<Rightarrow> py_error + npval" where
  "profile_log_l gamma event cum_hazard log_hazard reg_lambda =
     (case bool_index log_hazard event of
        Inl e \<Rightarrow> Inl e
      | Inr log_hazard_event \<Rightarrow>
          Inr (if bool_sum event = 0 \<or> sum_list cum_hazard / real (bool_sum event) \<le> 0
               then NonFinite
               else (let mean_t = sum_list cum_hazard / real (bool_sum event);
                         log_l = - real (bool_sum event) * ln mean_t + sum_list log_hazard_event
                                 - (1 / mean_t) * sum_list cum_hazard;
                         gdiff = 0.5 - gamma
                     in Num (- log_l + reg_lambda * gdiff * gdiff))))"

definition KTR_calculate_log_l ::
  "scipy \<Rightarrow> real \<Rightarrow> bool list \<Rightarrow> real list \<Rightarrow> spline \<Rightarrow> int \<Rightarrow> bool \<Rightarrow> real \<Rightarrow> py_error + npval" where
  "KTR_calculate_log_l sp gamma event t spline cores logTrick reg_lambda =
     (case pool_map cores (KTR_calculate_cum_hazard sp gamma spline logTrick) t of
        Inl e \<Rightarrow> Inl e
      | Inr cum_hazard \<Rightarrow>
          (let log_hazard = KTR_calculate_log_hazard gamma t spline
           in profile_log_l gamma event cum_hazard log_hazard reg_lambda))"

definition KTR_CDF ::
  "scipy \<Rightarrow> real list \<Rightarrow> real \<Rightarrow> real \<Rightarrow> spline \<Rightarrow> int \<Rightarrow> bool \<Rightarrow> py_error + real list" where
  "KTR_CDF sp t k0 gamma spline cores logTrick =
     (case pool_map 4 (KTR_calculate_cum_hazard sp gamma spline logTrick) t of
        Inl e \<Rightarrow> Inl e
      | Inr cum_hazard \<Rightarrow> Inr (map (\<lambda>h. 1 - exp (- k0 * h)) cum_hazard))"

text \<open>The tail shared by the two least-squares costs.\<close>

definition regularized_sse ::
  "real list \<Rightarrow> real list \<Rightarrow> real \<Rightarrow> real \<Rightarrow> real \<Rightarrow> real \<Rightarrow> py_error + real" where
  "regularized_sse ecdfy f k0 gamma reg_lambda kIMD =
     (case np_sub ecdfy f of
        Inl e \<Rightarrow> Inl e
      | Inr d \<Rightarrow>
          (let sse = sum_list (map (\<lambda>x. x * x) d);
               gdiff = 0.5 - gamma;
               kdiff = 10 * kIMD - k0
           in Inr (sse + reg_lambda * (kdiff * kdiff + gdiff * gdiff))))"

definition KTR_leastsq_cost ::
  "scipy \<Rightarrow> real \<times> real \<Rightarrow> real list \<Rightarrow> real list \<Rightarrow> spline \<Rightarrow> int \<Rightarrow> bool \<Rightarrow> real \<Rightarrow> real
     \<Rightarrow> py_error + real" where
  "KTR_leastsq_cost sp params t ecdfy spline cores logTrick reg_lambda kIMD =
     (case KTR_CDF sp t (fst params) (snd params) spline 4 False of
        Inl e \<Rightarrow> Inl e
      | Inr f \<Rightarrow> regularized_sse ecdfy f (fst params) (snd params) reg_lambda kIMD)"

definition KTR_MLE_objective ::
  "scipy \<Rightarrow> bool list \<Rightarrow> real list \<Rightarrow> spline \<Rightarrow> int \<Rightarrow> bool \<Rightarrow> real \<Rightarrow> real \<Rightarrow> py_error + npval" where
  "KTR_MLE_objective sp event t spline cores logTrick reg_lambda =
     (\<lambda>gamma. KTR_calculate_log_l sp gamma event t spline cores logTrick reg_lambda)"

text \<open>
  \<^verbatim>\<open>1/mean_t\<close> with \<^verbatim>\<open>mean_t = cum_hazard.sum() / event.sum()\<close>: a zero sum makes
  \<open>mean_t\<close> zero or \<^verbatim>\<open>nan\<close>; no transition and a non-zero sum make \<open>mean_t\<close> infinite and
  its reciprocal zero.
\<close>

definition recip_mean_t :: "real \<Rightarrow> nat \<Rightarrow> npval" where
  "recip_mean_t S M =
     (if S = 0 then NonFinite
      else if M = 0 then Num 0
      else (let mean_t = S / real M in Num (1 / mean_t)))"

text \<open>
  \<^verbatim>\<open>KTR_MLE_rate\<close>. The branch \<^verbatim>\<open>do_bopt\<close> uses the names \<^verbatim>\<open>acquisition\<close> and
  \<^verbatim>\<open>bopt\<close>, whose imports are commented out at the head of the module: it raises
  \<^verbatim>\<open>NameError\<close>.
\<close>

definition KTR_MLE_rate ::
  "scipy \<Rightarrow> (real option \<times> real option) list \<Rightarrow> real list \<Rightarrow> bool list \<Rightarrow> real \<times> real \<Rightarrow> int
     \<Rightarrow> bool \<Rightarrow> real \<Rightarrow> bool \<Rightarrow> py_error + ((npval \<times> real) \<times> spline)" where
  "KTR_MLE_rate sp vmb_average t event gamma_bounds cores logTrick reg_lambda do_bopt =
     (let unique_T = map fst vmb_average;
          unique_V = map snd vmb_average
      in case UnivariateSpline sp unique_T unique_V of
           Inl e \<Rightarrow> Inl e
         | Inr spline \<Rightarrow>
             (case (if \<not> do_bopt
                    then minimize_bounded sp
                           (KTR_MLE_objective sp event t spline cores logTrick reg_lambda)
                           gamma_bounds
                    else Inl NameError) of
                Inl e \<Rightarrow> Inl e
              | Inr gamma \<Rightarrow>
                  (case pool_map cores (KTR_calculate_cum_hazard sp gamma spline logTrick) t of
                     Inl e \<Rightarrow> Inl e
                   | Inr cum_hazard \<Rightarrow>
                       Inr ((recip_mean_t (sum_list cum_hazard) (bool_sum event), gamma),
                            spline))))"

text \<open>
  \<^verbatim>\<open>KTR_CDF_rate\<close>. \<open>k_bounds\<close> is \<^verbatim>\<open>[-np.inf, np.inf]\<close> unless a rate is enforced: a
  bound of \<open>None\<close> is an infinite one.
\<close>

definition KTR_CDF_rate ::
  "scipy \<Rightarrow> (real option \<times> real option) list \<Rightarrow> real list \<Rightarrow> real option \<times> real option
     \<Rightarrow> real \<times> real \<Rightarrow> bool list \<Rightarrow> int \<Rightarrow> bool \<Rightarrow> real \<times> real \<Rightarrow> real \<Rightarrow> real \<Rightarrow> bool
     \<Rightarrow> py_error + ((real \<times> real) \<times> spline)" where
  "KTR_CDF_rate sp vmb_average t k_bounds gamma_bounds event cores logTrick k_guess reg_lambda
       kIMD do_bopt =
     (case bool_index t event of
        Inl e \<Rightarrow> Inl e
      | Inr t_event \<Rightarrow>
          (let counts = sort t_event;
               ecdf = arange_div (bool_sum event) (length event);
               unique_T = map fst vmb_average;
               unique_V = map snd vmb_average
           in case UnivariateSpline sp unique_T unique_V of
                Inl e \<Rightarrow> Inl e
              | Inr spline \<Rightarrow>
                  (case (if \<not> do_bopt then
                           (if reg_lambda = 0 then
                              curve_fit sp
                                (\<lambda>t k0 gamma. KTR_CDF sp t k0 gamma spline 4 logTrick)
                                counts ecdf k_guess
                                ((fst k_bounds, fst gamma_bounds), (snd k_bounds, snd gamma_bounds))
                            else
                              minimize sp
                                (\<lambda>params. KTR_leastsq_cost sp params counts ecdf spline cores
                                             logTrick reg_lambda kIMD)
                                k_guess)
                         else Inl NameError) of
                     Inl e \<Rightarrow> Inl e
                   | Inr cdf_result \<Rightarrow> Inr (cdf_result, spline))))"

section \<open>Ensemble-averaged rate method (EATR)\<close>

definition EATR_calculate_cum_hazard :: "scipy \<Rightarrow> real \<Rightarrow> spline \<Rightarrow> bool \<Rightarrow> real \<Rightarrow> real" where
  "EATR_calculate_cum_hazard sp gamma spline logTrick t =
     (let dt = 1 in
      if logTrick then
        (let max_spline = minimize_scalar sp (\<lambda>x. neg_spline x spline);
             t_points = np_arange t
         in 0.5 * dt * (1 + exp (spline t)
              + 2 * exp_add_log max_spline
                      (sum_list (map (\<lambda>x. exp (spline x - max_spline)) (tl t_points)))))
      else
        (let int_Veff = quad sp (\<lambda>x. exp (spline x)) 0 t
         in int_Veff))"

definition EATR_calculate_log_hazard :: "real \<Rightarrow> real list \<Rightarrow> spline \<Rightarrow> real list" where
  "EATR_calculate_log_hazard gamma t spline = (let Veff = map spline t in Veff)"

definition EATR_calculate_log_l ::
  "scipy \<Rightarrow> real \<Rightarrow> bool list \<Rightarrow> real list \<Rightarrow> spline \<Rightarrow> int \<Rightarrow> bool \<Rightarrow> real \<Rightarrow> py_error + npval" where
  "EATR_calculate_log_l sp gamma event t spline cores logTrick reg_lambda =
     (case pool_map cores (EATR_calculate_cum_hazard sp gamma spline logTrick) t of
        Inl e \<Rightarrow> Inl e
      | Inr cum_hazard \<Rightarrow>
          (let log_hazard = EATR_calculate_log_hazard gamma t spline
           in profile_log_l gamma event cum_hazard log_hazard reg_lambda))"

definition EATR_CDF ::
  "scipy \<Rightarrow> real list \<Rightarrow> real \<Rightarrow> real \<Rightarrow> spline \<Rightarrow> int \<Rightarrow> bool \<Rightarrow> py_error + real list" where
  "EATR_CDF sp t k0 gamma spline cores logTrick =
     (case pool_map cores (EATR_calculate_cum_hazard sp gamma spline logTrick) t of
        Inl e \<Rightarrow> Inl e
      | Inr cum_hazard \<Rightarrow> Inr (map (\<lambda>h. 1 - exp (- h * k0)) cum_hazard))"

definition EATR_leastsq_cost ::
  "scipy \<Rightarrow> real \<Rightarrow> real \<Rightarrow> real list \<Rightarrow> real list \<Rightarrow> spline \<Rightarrow> int \<Rightarrow> bool \<Rightarrow> real \<Rightarrow> real
     \<Rightarrow> py_error + real" where
  "EATR_leastsq_cost sp k0 gamma t ecdfy spline cores logTrick reg_lambda kIMD =
     (case EATR_CDF sp t k0 gamma spline 4 False of
        Inl e \<Rightarrow> Inl e
      | Inr f \<Rightarrow> regularized_sse ecdfy f k0 gamma reg_lambda kIMD)"

text \<open>
  One time index of \<^verbatim>\<open>EATR_calculate_avg_acc\<close>: \<open>vals\<close> are the biases of the replicas
  that still run at that time. With \<open>logTrick\<close> the exponents are anchored at
  \<^verbatim>\<open>np.nanmax\<close> of the column.
\<close>

definition avg_acc_column :: "real \<Rightarrow> real \<Rightarrow> bool \<Rightarrow> real list \<Rightarrow> real option" where
  "avg_acc_column gamma beta logTrick vals =
     (if vals = [] then None
      else if logTrick then
        (let simmax_v = fold max (tl vals) (hd vals);
             acc_average = sum_list (map (\<lambda>v. exp (beta * gamma * (v - simmax_v))) vals)
                             / real (length vals)
         in Some (beta * gamma * simmax_v + ln acc_average))
      else
        (let acc_average = sum_list (map (\<lambda>v. exp (beta * gamma * v)) vals)
                             / real (length vals)
         in Some (ln acc_average)))"

definition EATR_calculate_avg_acc ::
  "scipy \<Rightarrow> real \<Rightarrow> masked2d \<Rightarrow> real \<Rightarrow> real list option \<Rightarrow> bool \<Rightarrow> py_error + spline" where
  "EATR_calculate_avg_acc sp gamma v_data beta ix_col logTrick =
     (let acc_average =
            map (\<lambda>j. avg_acc_column gamma beta logTrick
                        (List.map_filter (\<lambda>row. row ! j) (mrows v_data)))
                [0..<ncols v_data]
      in case np_vstack_T ix_col acc_average of
           Inl e \<Rightarrow> Inl e
         | Inr stacked \<Rightarrow> UnivariateSpline sp (map fst stacked) (map snd stacked))"

definition log_l_aa ::
  "scipy \<Rightarrow> masked2d \<Rightarrow> real \<Rightarrow> real list option \<Rightarrow> int \<Rightarrow> bool \<Rightarrow> real \<Rightarrow> bool list \<Rightarrow> real list
     \<Rightarrow> real \<Rightarrow> py_error + npval" where
  "log_l_aa sp v_data beta ix_col cores logTrick reg_lambda event t =
     (\<lambda>gamma. case EATR_calculate_avg_acc sp gamma v_data beta ix_col logTrick of
                 Inl e \<Rightarrow> Inl e
               | Inr spline \<Rightarrow>
                   EATR_calculate_log_l sp gamma event t spline cores logTrick reg_lambda)"

definition EATR_MLE_rate ::
  "scipy \<Rightarrow> masked2d \<Rightarrow> real list \<Rightarrow> bool list \<Rightarrow> real \<times> real \<Rightarrow> real \<Rightarrow> real list option \<Rightarrow> int
     \<Rightarrow> bool \<Rightarrow> real \<Rightarrow> bool \<Rightarrow> py_error + ((npval \<times> real) \<times> spline)" where
  "EATR_MLE_rate sp v_data t event gamma_bounds beta ix_col cores logTrick reg_lambda do_bopt =
     (case (if \<not> do_bopt
            then minimize_bounded sp
                   (log_l_aa sp v_data beta ix_col cores logTrick reg_lambda event t)
                   gamma_bounds
            else Inl NameError) of
        Inl e \<Rightarrow> Inl e
      | Inr gamma \<Rightarrow>
          (case EATR_calculate_avg_acc sp gamma v_data beta ix_col logTrick of
             Inl e \<Rightarrow> Inl e
           | Inr spline \<Rightarrow>
               (case pool_map cores (EATR_calculate_cum_hazard sp gamma spline logTrick) t of
                  Inl e \<Rightarrow> Inl e
                | Inr cum_hazard \<Rightarrow>
                    Inr ((recip_mean_t (sum_list cum_hazard) (bool_sum event), gamma),
                         spline))))"

definition EATR_CDF_rate ::
  "scipy \<Rightarrow> masked2d \<Rightarrow> real list \<Rightarrow> bool list \<Rightarrow> real option \<times> real option \<Rightarrow> real \<times> real
     \<Rightarrow> real \<Rightarrow> real list option \<Rightarrow> int \<Rightarrow> real \<times> real \<Rightarrow> bool \<Rightarrow> real \<Rightarrow> real \<Rightarrow> bool
     \<Rightarrow> py_error + ((real \<times> real) \<times> spline)" where
  "EATR_CDF_rate sp v_data t event k_bounds gamma_bounds beta ix_col cores k_guess logTrick
       reg_lambda kIMD do_bopt =
     (let tcdf = (\<lambda>time k0 gamma.
                    case EATR_calculate_avg_acc sp gamma v_data beta ix_col logTrick of
                      Inl e \<Rightarrow> Inl e
                    | Inr spline \<Rightarrow> EATR_CDF sp time k0 gamma spline cores logTrick);
          get_cost = (\<lambda>params ecdf_data.
                    case EATR_calculate_avg_acc sp (snd params) v_data beta ix_col logTrick of
                      Inl e \<Rightarrow> Inl e
                    | Inr spline \<Rightarrow>
                        EATR_leastsq_cost sp (exp (fst params)) (snd params)
                          (fst ecdf_data) (snd ecdf_data) spline cores logTrick reg_lambda kIMD)
      in case bool_index t event of
           Inl e \<Rightarrow> Inl e
         | Inr t_event \<Rightarrow>
             (let counts = sort t_event;
                  ecdf = arange_div (bool_sum event) (length event)
              in case (if \<not> do_bopt then
                         (if reg_lambda = 0 then
                            curve_fit sp tcdf counts ecdf k_guess
                              ((fst k_bounds, fst gamma_bounds), (snd k_bounds, snd gamma_bounds))
                          else
                            minimize sp (\<lambda>params. get_cost params (counts, ecdf)) k_guess)
                       else Inl NameError) of
                   Inl e \<Rightarrow> Inl e
                 | Inr cdf_result \<Rightarrow>
                     (case EATR_calculate_avg_acc sp (snd cdf_result) v_data beta ix_col
                             logTrick of
                        Inl e \<Rightarrow> Inl e
                      | Inr spline \<Rightarrow> Inr (cdf_result, spline))))"

section \<open>Kolmogorov-Smirnov consistency brackets\<close>

text \<open>
  The orchestrator \<^verbatim>\<open>rates\<close> tests a fit with SciPy's Kolmogorov-Smirnov tests and, with
  \<^verbatim>\<open>ks_ranges\<close>, searches on both sides of the fitted value for the parameters that still
  pass. The statistical routines are an environment of their own:
  \<^item> \<open>gamma_rvs n k_i size\<close> is \<^verbatim>\<open>gamma_func.rvs(1, scale=1/k_i, size=size)\<close>, the sample
    drawn when the random generator has been used \<open>n\<close> times before;
  \<^item> \<open>ks_2samp x y\<close> is the p-value \<^verbatim>\<open>ks_2samp(x, y)[1]\<close>;
  \<^item> \<open>ks_1samp x cdf\<close> is the p-value \<^verbatim>\<open>ks_1samp(x, cdf, args=...)[1]\<close>, where \<open>cdf\<close> is the
    model CDF with the arguments \<^verbatim>\<open>args\<close> already applied.
\<close>

record stats =
  gamma_rvs :: "nat \<Rightarrow> real \<Rightarrow> nat \<Rightarrow> py_error + real list"
  ks_2samp :: "real list \<Rightarrow> real list \<Rightarrow> py_error + real"
  ks_1samp :: "real list \<Rightarrow> (real list \<Rightarrow> py_error + real list) \<Rightarrow> py_error + real"

text \<open>
  The searches of \<^verbatim>\<open>rates\<close> are one loop:
  \<^verbatim>\<open>while p > 0.05 [and guard]: x_i = step(x_i); fit, p = test(x_i); if p > 0.05: good_fit = fit\<close>.
  They differ in the step, in the guard and in the test. The loop is entered with
  \<^verbatim>\<open>p = 0.06\<close> and \<^verbatim>\<open>good_fit = None\<close>. The list \<open>tried\<close> records the values at which the test
  was run; the test is told how many were tried before. A loop that never ends has the
  value \<open>None\<close>; an exception raised by the test ends it.
\<close>

partial_function (option) ks_bracket ::
  "(real \<Rightarrow> real) \<Rightarrow> (real \<Rightarrow> bool) \<Rightarrow> (nat \<Rightarrow> real \<Rightarrow> py_error + 'a \<times> real)
     \<Rightarrow> real \<Rightarrow> real \<Rightarrow> 'a option \<Rightarrow> real list \<Rightarrow> (py_error + 'a option \<times> real list) option" where
  "ks_bracket step guard test x_i p good_fit tried =
     (if p > 0.05 \<and> guard x_i then
        (let x_i = step x_i in
         case test (length tried) x_i of
           Inl e \<Rightarrow> Some (Inl e)
         | Inr (fit, p) \<Rightarrow>
             ks_bracket step guard test x_i p (if p > 0.05 then Some fit else good_fit)
               (tried @ [x_i]))
      else Some (Inr (good_fit, tried)))"

text \<open>
  The test of the rate \<open>k_i\<close> against the rescaled times \<^verbatim>\<open>final_times[:,1]\<close>; the sample has
  \<^verbatim>\<open>np.int64(len(final_times[:,1])*5e4)\<close> draws. The fit kept is \<open>k_i\<close> itself.
\<close>

definition iMetaD_KS_test :: "stats \<Rightarrow> real list \<Rightarrow> nat \<Rightarrow> nat \<Rightarrow> real \<Rightarrow> py_error + real \<times> real" where
  "iMetaD_KS_test st final_times1 draws n k_i =
     (case gamma_rvs st (draws + n) k_i (length final_times1 * 50000) of
        Inl e \<Rightarrow> Inl e
      | Inr rvs1 \<Rightarrow>
          (case ks_2samp st rvs1 final_times1 of
             Inl e \<Rightarrow> Inl e
           | Inr p \<Rightarrow> Inr (k_i, p)))"

text \<open>
  The searches for \<^verbatim>\<open>"iMetaD CDF KS klo"\<close> (\<open>down\<close>: the rate multiplied by \<^verbatim>\<open>10**(-0.02)\<close>
  at each step) and \<^verbatim>\<open>"iMetaD CDF KS khi"\<close> (the rate multiplied by \<^verbatim>\<open>10**(0.02)\<close>), started
  at the fitted rate \<open>k\<close>. The value is the entry written to \<^verbatim>\<open>results\<close>, with the rates
  tried.
\<close>

definition iMetaD_CDF_KS ::
  "stats \<Rightarrow> bool \<Rightarrow> real list \<Rightarrow> nat \<Rightarrow> real \<Rightarrow> real \<Rightarrow> (py_error + real \<times> real list) option" where
  "iMetaD_CDF_KS st down final_times1 draws rate_conv k =
     (case ks_bracket
             (\<lambda>k_i. if down then k_i * 10 powr (- 0.02) else k_i * 10 powr 0.02)
             (\<lambda>k_i. True)
             (iMetaD_KS_test st final_times1 draws)
             k 0.06 None [] of
        None \<Rightarrow> None
      | Some (Inl e) \<Rightarrow> Some (Inl e)
      | Some (Inr (good_fit, tried)) \<Rightarrow>
          Some (Inr ((case good_fit of
                        Some k_i \<Rightarrow> k_i * rate_conv
                      | None \<Rightarrow> k * rate_conv),
                     tried)))"

text \<open>
  The test of a step of the \<open>gamma\<close> search of KTR: the two parameters are fitted again by
  \<^verbatim>\<open>KTR_CDF_rate\<close> with the bounds \<^verbatim>\<open>(gamma_i-0.00000000001, gamma_i)\<close> on \<open>gamma\<close> and the
  start \<^verbatim>\<open>(init_guess[0], gamma_i)\<close>, and the fit is tested against the transition times
  \<^verbatim>\<open>final_times[:,0]\<close>. The call
  \<^verbatim>\<open>ks_1samp(final_times[:,0], KTR_CDF, args=(k0, gamma, spline, logTrick))\<close> hands
  \<^verbatim>\<open>logTrick\<close> to the parameter \<^verbatim>\<open>cores\<close> of \<^verbatim>\<open>KTR_CDF\<close>, whose own \<^verbatim>\<open>logTrick\<close> keeps its default
  \<^verbatim>\<open>False\<close>. The fit kept is the pair returned by \<^verbatim>\<open>KTR_CDF_rate\<close>.
\<close>

definition KTR_KS_test ::
  "scipy \<Rightarrow> stats \<Rightarrow> (real option \<times> real option) list \<Rightarrow> real list \<Rightarrow> real option \<times> real option
     \<Rightarrow> bool list \<Rightarrow> int \<Rightarrow> bool \<Rightarrow> real \<times> real \<Rightarrow> real \<Rightarrow> real \<Rightarrow> bool \<Rightarrow> real list
     \<Rightarrow> nat \<Rightarrow> real \<Rightarrow> py_error + (real \<times> real) \<times> real" where
  "KTR_KS_test sp st vmb_average t k_bounds event cores logTrick init_guess lambda_KTR k
       do_bopt final_times0 n gamma_i =
     (case KTR_CDF_rate sp vmb_average t k_bounds (gamma_i - 0.00000000001, gamma_i) event
             cores logTrick (fst init_guess, gamma_i) lambda_KTR k do_bopt of
        Inl e \<Rightarrow> Inl e
      | Inr (cdf_result_i, spline) \<Rightarrow>
          (case ks_1samp st final_times0
                  (\<lambda>x. KTR_CDF sp x (fst cdf_result_i) (snd cdf_result_i) spline
                          (if logTrick then 1 else 0) False) of
             Inl e \<Rightarrow> Inl e
           | Inr p \<Rightarrow> Inr (cdf_result_i, p)))"

text \<open>
  The searches for \<^verbatim>\<open>"KTR Vmb CDF KS khi"\<close> and \<^verbatim>\<open>"KTR Vmb CDF KS glo"\<close> (\<open>down\<close>: \<open>gamma\<close>
  lowered by \<open>0.02\<close> while it is above \<^verbatim>\<open>gamma_bounds[0]\<close>) and for
  \<^verbatim>\<open>"KTR Vmb CDF KS klo"\<close> and \<^verbatim>\<open>"KTR Vmb CDF KS ghi"\<close> (\<open>gamma\<close> raised by \<open>0.02\<close> while it is
  below \<^verbatim>\<open>gamma_bounds[1]\<close>), started at the fitted pair \<^verbatim>\<open>cdf_result\<close>. The value is the
  pair of entries written to \<^verbatim>\<open>results\<close>, the rate first, with the values of \<open>gamma\<close> tried.
\<close>

definition KTR_Vmb_CDF_KS ::
  "scipy \<Rightarrow> stats \<Rightarrow> bool \<Rightarrow> (real option \<times> real option) list \<Rightarrow> real list
     \<Rightarrow> real option \<times> real option \<Rightarrow> real \<times> real \<Rightarrow> bool list \<Rightarrow> int \<Rightarrow> bool \<Rightarrow> real \<times> real
     \<Rightarrow> real \<Rightarrow> real \<Rightarrow> bool \<Rightarrow> real list \<Rightarrow> real \<Rightarrow> real \<times> real
     \<Rightarrow> (py_error + (real \<times> real) \<times> real list) option" where
  "KTR_Vmb_CDF_KS sp st down vmb_average t k_bounds gamma_bounds event cores logTrick
       init_guess lambda_KTR k do_bopt final_times0 rate_conv cdf_result =
     (case ks_bracket
             (\<lambda>gamma_i. if down then gamma_i - 0.02 else gamma_i + 0.02)
             (\<lambda>gamma_i. if down then gamma_i > fst gamma_bounds
                          else gamma_i < snd gamma_bounds)
             (KTR_KS_test sp st vmb_average t k_bounds event cores logTrick init_guess
                lambda_KTR k do_bopt final_times0)
             (snd cdf_result) 0.06 None [] of
        None \<Rightarrow> None
      | Some (Inl e) \<Rightarrow> Some (Inl e)
      | Some (Inr (good_fit, tried)) \<Rightarrow>
          Some (Inr ((case good_fit of
                        Some fit \<Rightarrow> (fst fit * rate_conv, snd fit)
                      | None \<Rightarrow> (fst cdf_result * rate_conv, snd cdf_result)),
                     tried)))"

text \<open>
  A search that ends after \<open>n\<close> steps. The values tried are \<open>xs 1, ..., xs n\<close>, started from
  \<open>xs 0\<close> inside the guard; the test of step \<open>j\<close> returns the fit \<open>fit j\<close> and the p-value
  \<open>p j\<close>; every step before the last passes the threshold and stays inside the guard, the
  last one does not.
\<close>

definition ks_run ::
  "(real \<Rightarrow> bool) \<Rightarrow> (nat \<Rightarrow> real \<Rightarrow> py_error + 'a \<times> real) \<Rightarrow> (nat \<Rightarrow> real) \<Rightarrow> nat \<Rightarrow> (nat \<Rightarrow> 'a)
     \<Rightarrow> (nat \<Rightarrow> real) \<Rightarrow> bool" where
  "ks_run guard test xs n fit p \<longleftrightarrow>
     0 < n \<and> guard (xs 0)
     \<and> (\<forall>j\<in>{1..n}. test (j - 1) (xs j) = Inr (fit j, p j))
     \<and> (\<forall>j\<in>{1..<n}. p j > 0.05 \<and> guard (xs j))
     \<and> \<not> (p n > 0.05 \<and> guard (xs n))"

text \<open>The fit of the last step that passed the threshold, if there is one.\<close>

definition last_passed :: "nat \<Rightarrow> (nat \<Rightarrow> 'a) \<Rightarrow> (nat \<Rightarrow> real) \<Rightarrow> 'a option" where
  "last_passed n fit p =
     (if p n > 0.05 then Some (fit n) else if n = 1 then None else Some (fit (n - 1)))"

section \<open>The trapezoidal rule\<close>

text \<open>
  The composite trapezoidal rule with step one for the integral of \<open>f\<close> over \<open>[0, n]\<close>,
  as the specification words the log-trick integrator.
\<close>

definition trapezoid_unit :: "(real \<Rightarrow> real) \<Rightarrow> nat \<Rightarrow> real" where
  "trapezoid_unit f n = sum_list (map (\<lambda>i. (f (real i) + f (real (i + 1))) / 2) [0..<n])"

section \<open>What is asked of the optimiser\<close>

text \<open>
  The bounded scalar minimiser of SciPy searches inside the interval it is given: what
  it returns lies between the two bounds.
\<close>

definition respects_bounds :: "scipy \<Rightarrow> bool" where
  "respects_bounds sp \<longleftrightarrow>
     (\<forall>f bounds x. minimize_bounded sp f bounds = Inr x \<longrightarrow> fst bounds \<le> x \<and> x \<le> snd bounds)"

text \<open>
  The bounded least-squares fit of SciPy keeps each parameter inside its bounds; here the
  bounds of \<open>gamma\<close>, the second parameter.
\<close>

definition fit_respects_bounds :: "scipy \<Rightarrow> bool" where
  "fit_respects_bounds sp \<longleftrightarrow>
     (\<forall>f x y p0 lower upper r. curve_fit sp f x y p0 (lower, upper) = Inr r
        \<longrightarrow> snd lower \<le> snd r \<and> snd r \<le> snd upper)"

section \<open>What is asked of the quadrature\<close>

text \<open>
  The direct branch of the cumulative hazard calls \<^verbatim>\<open>integrate.quad\<close>. The quadrature is
  exact for an integrand \<open>f\<close> when it returns the integral of \<open>f\<close>: the increase of an
  antiderivative of \<open>f\<close> between the two limits.
\<close>

definition exact_quad :: "scipy \<Rightarrow> (real \<Rightarrow> real) \<Rightarrow> bool" where
  "exact_quad sp f \<longleftrightarrow>
     (\<exists>F. (\<forall>x. (F has_real_derivative f x) (at x)) \<and> (\<forall>a b. quad sp f a b = F b - F a))"

text \<open>The entry of the array returned by \<^verbatim>\<open>KTR_CDF\<close>, or \<^verbatim>\<open>EATR_CDF\<close>, for the time \<open>t\<close>.\<close>

definition KTR_CDF_at :: "scipy \<Rightarrow> real \<Rightarrow> real \<Rightarrow> spline \<Rightarrow> bool \<Rightarrow> real \<Rightarrow> real" where
  "KTR_CDF_at sp k0 gamma spline logTrick t =
     1 - exp (- k0 * KTR_calculate_cum_hazard sp gamma spline logTrick t)"

definition EATR_CDF_at :: "scipy \<Rightarrow> real \<Rightarrow> real \<Rightarrow> spline \<Rightarrow> bool \<Rightarrow> real \<Rightarrow> real" where
  "EATR_CDF_at sp k0 gamma spline logTrick t =
     1 - exp (- EATR_calculate_cum_hazard sp gamma spline logTrick t * k0)"

section \<open>A concrete environment\<close>

text \<open>
  An environment that is exact on constant integrands and keeps every start value: the
  quadrature is the rectangle rule, each optimiser returns the lower bound or the start
  value it is given, and every spline is the zero function. The estimators are run in it
  on small ensembles.
\<close>

definition scipy_const :: scipy where
  "scipy_const =
     \<lparr>quad = (\<lambda>f a b. (b - a) * f a),
      minimize_scalar = (\<lambda>f. 0),
      minimize_bounded = (\<lambda>f bounds. if snd bounds < fst bounds then Inl ValueError
                                        else Inr (fst bounds)),
      UnivariateSpline = (\<lambda>x y. Inr (\<lambda>t. 0)),
      curve_fit = (\<lambda>f x y p0 bounds. Inr p0),
      minimize = (\<lambda>f x0. Inr x0)\<rparr>"

text \<open>
  The same environment with an unconstrained minimiser that ends at the point
  \<open>(1, 1/2)\<close> from every start.
\<close>

definition scipy_fixed :: scipy where
  "scipy_fixed = scipy_const\<lparr>minimize := (\<lambda>f x0. Inr (1, 1 / 2))\<rparr>"

text \<open>
  Statistical routines for small runs: the sample drawn is the number of draws made
  before, the two-sample test passes the first draw only, and the one-sample test passes
  every fit.
\<close>

definition stats_const :: stats where
  "stats_const =
     \<lparr>gamma_rvs = (\<lambda>n k_i size. Inr [real n]),
      ks_2samp = (\<lambda>x y. Inr (if x = [0] then 1 else 0)),
      ks_1samp = (\<lambda>x cdf. Inr 1)\<rparr>"

section \<open>Properties\<close>

lemma length_bool_index:
  "bool_index a event = Inr sel \<Longrightarrow> length sel = bool_sum event"
proof -
  have "length (filter snd (zip a ev)) = length (filter (\<lambda>b. b) ev)"
    if "length ev = length a" for a :: "'a list" and ev
    using that by (induction a ev rule: list_induct2') auto
  then show "bool_index a event = Inr sel \<Longrightarrow> length sel = bool_sum event"
    by (auto simp: bool_index_def bool_sum_def split: if_splits)
qed

text \<open>
  Claim C8, as stated, at an input where it fails. Called on the times \<open>[2]\<close> with
  \<open>rescale = True\<close> and no acceleration factors, the estimator raises nothing: it prints
  its message and returns \<^verbatim>\<open>None\<close> to the caller, which goes on with that value.
\<close>

theorem iMetaD_invMRT_rescale_without_acc_returns_None:
  "\<not> isl (returned (iMetaD_invMRT [2] [True] True None))
   \<and> returned (iMetaD_invMRT [2] [True] True None) = Inr None
   \<and> printed (iMetaD_invMRT [2] [True] True None) = [msg_need_acc]"
  by (simp add: iMetaD_invMRT_def)

text \<open>
  Claim C8, amended. Called with \<open>rescale = True\<close> and no acceleration factors, the inverse
  mean residence time estimator prints its message and returns \<^verbatim>\<open>None\<close> at once: nothing
  is computed, no rate comes back, no exception is raised and \<open>times\<close> is as it was.
\<close>

theorem iMetaD_invMRT_rescale_without_acc:
  "iMetaD_invMRT tms event True None =
     \<lparr>times_after = tms, printed = [msg_need_acc], returned = Inr None\<rparr>
   \<and> \<not> isl (returned (iMetaD_invMRT tms event True None))"
  by (simp add: iMetaD_invMRT_def)

text \<open>
  Claim C10. The least-squares costs of KTR and of EATR do not depend on the \<open>logTrick\<close>
  flag nor on \<open>cores\<close>: both evaluate the model CDF with \<open>cores = 4\<close> and
  \<open>logTrick = False\<close>, whatever the caller passes.
\<close>

theorem leastsq_cost_ignores_logTrick:
  "KTR_leastsq_cost sp params t ecdfy spline cores logTrick reg_lambda kIMD
     = KTR_leastsq_cost sp params t ecdfy spline cores' logTrick' reg_lambda kIMD
   \<and> KTR_leastsq_cost sp params t ecdfy spline cores logTrick reg_lambda kIMD
     = (case KTR_CDF sp t (fst params) (snd params) spline cores'' False of
          Inl e \<Rightarrow> Inl e
        | Inr f \<Rightarrow> regularized_sse ecdfy f (fst params) (snd params) reg_lambda kIMD)
   \<and> EATR_leastsq_cost sp k0 gamma t ecdfy spline cores logTrick reg_lambda kIMD
     = EATR_leastsq_cost sp k0 gamma t ecdfy spline cores' logTrick' reg_lambda kIMD
   \<and> EATR_leastsq_cost sp k0 gamma t ecdfy spline cores logTrick reg_lambda kIMD
     = (case EATR_CDF sp t k0 gamma spline 4 False of
          Inl e \<Rightarrow> Inl e
        | Inr f \<Rightarrow> regularized_sse ecdfy f k0 gamma reg_lambda kIMD)"
  by (simp add: KTR_leastsq_cost_def EATR_leastsq_cost_def KTR_CDF_def)

lemma bool_index_map:
  "length event = length t \<Longrightarrow>
   bool_index (map f t) event = Inr (map f (map fst (filter snd (zip t event))))"
proof -
  assume len: "length event = length t"
  have "map fst (filter snd (zip (map f t) event)) = map f (map fst (filter snd (zip t event)))"
    using len by (induction event t rule: list_induct2) auto
  with len show ?thesis by (simp add: bool_index_def)
qed

text \<open>
  Claim C9, at the input where it fails. With \<open>rescale = True\<close> and acceleration factors,
  the estimator multiplies the caller's array in place: after the call on the times
  \<open>[2]\<close> with the factors \<open>[3]\<close> the array holds \<open>[6]\<close>.
\<close>

theorem iMetaD_invMRT_rescale_overwrites_times:
  "times_after (iMetaD_invMRT [2] [True] True (Some [3])) = [6]
   \<and> returned (iMetaD_invMRT [2] [True] True (Some [3])) = Inr (Some (Num (1 / 6)))"
  by (simp add: iMetaD_invMRT_def imul_def invMRT_value_def bool_index_def bool_sum_def np_div_def)

text \<open>
  Claim C1. With a pool of at least one process, one event flag per time and at least
  one transition, the log-likelihood functions of KTR and EATR return
  \<open>- [ - M log(mean_t) + (sum of the log-hazards of the transitioned replicas)
        - (1/mean_t) (sum of the cumulative hazards) ] + reg_lambda (0.5 - gamma)\<^sup>2\<close>
  with \<open>M\<close> the number of transitions and \<open>mean_t\<close> the sum of the cumulative hazards over
  \<open>M\<close>. The value is a number exactly when \<open>mean_t\<close> is positive, so that its logarithm
  exists.
\<close>

theorem profile_log_likelihood_formula:
  assumes "1 \<le> cores" and "length event = length t" and "0 < bool_sum event"
  shows "KTR_calculate_log_l sp gamma event t spline cores logTrick reg_lambda =
           (let M = real (bool_sum event);
                H = map (KTR_calculate_cum_hazard sp gamma spline logTrick) t;
                mean_t = sum_list H / M
            in Inr (if mean_t \<le> 0 then NonFinite
                    else Num (- (- M * ln mean_t
                                 + sum_list (map (\<lambda>x. gamma * spline x)
                                               (map fst (filter snd (zip t event))))
                                 - (1 / mean_t) * sum_list H)
                              + reg_lambda * (0.5 - gamma)\<^sup>2)))
       \<and> EATR_calculate_log_l sp gamma event t spline cores logTrick reg_lambda =
           (let M = real (bool_sum event);
                H = map (EATR_calculate_cum_hazard sp gamma spline logTrick) t;
                mean_t = sum_list H / M
            in Inr (if mean_t \<le> 0 then NonFinite
                    else Num (- (- M * ln mean_t
                                 + sum_list (map spline (map fst (filter snd (zip t event))))
                                 - (1 / mean_t) * sum_list H)
                              + reg_lambda * (0.5 - gamma)\<^sup>2)))"
proof -
  have k: "bool_index (KTR_calculate_log_hazard gamma t spline) event
             = Inr (map (\<lambda>x. gamma * spline x) (map fst (filter snd (zip t event))))"
    using bool_index_map [OF assms(2), of "\<lambda>x. gamma * spline x"]
    by (simp add: KTR_calculate_log_hazard_def comp_def)
  have e: "bool_index (EATR_calculate_log_hazard gamma t spline) event
             = Inr (map spline (map fst (filter snd (zip t event))))"
    using bool_index_map [OF assms(2), of spline]
    by (simp add: EATR_calculate_log_hazard_def)
  show ?thesis
    using assms(1,3)
    by (simp add: KTR_calculate_log_l_def EATR_calculate_log_l_def pool_map_def
        profile_log_l_def k e Let_def power2_eq_square algebra_simps)
qed

theorem profile_log_likelihood_formula_witness:
  "(1::int) \<le> 4 \<and> length [True] = length [1::real] \<and> 0 < bool_sum [True]
   \<and> KTR_calculate_log_l scipy_const 0 [True] [1] (\<lambda>x. 0) 4 True 0 = Inr (Num 1)
   \<and> EATR_calculate_log_l scipy_const 0 [True] [1] (\<lambda>x. 0) 4 True 0 = Inr (Num 1)"
  using profile_log_likelihood_formula [of 4 "[True]" "[1]" scipy_const 0 "\<lambda>x. 0" True 0]
  by (simp add: bool_sum_def KTR_calculate_cum_hazard_def EATR_calculate_cum_hazard_def
      np_arange_def exp_add_log_def)

lemma fill_loop_none:
  "\<forall>i \<in> set idx. \<exists>row. fill i = Inr (row, None) \<Longrightarrow>
   fill_loop fill idx filled ix_col = Inr (filled @ map (\<lambda>i. fst (projr (fill i))) idx, ix_col)"
proof (induction idx arbitrary: filled)
  case Nil
  then show ?case by simp
next
  case (Cons i rest)
  then obtain row where r: "fill i = Inr (row, None)" by auto
  from Cons.prems have "\<forall>j \<in> set rest. \<exists>row. fill j = Inr (row, None)" by simp
  from Cons.IH [OF this, of "filled @ [row]"] r show ?case by simp
qed

text \<open>
  Claim C7, as stated, at an input where it fails. One replica of one row, and a maximum
  row count of two that no replica reaches: \<^verbatim>\<open>inst_bias\<close> raises nothing and returns the
  padded biases with \<^verbatim>\<open>ix_col = None\<close>.
\<close>

theorem inst_bias_returns_no_time_axis:
  "inst_bias [[[0, 1]]] 1 2 1 1 0 = Inr (\<lparr>ncols = 2, mrows = [[Some 1, None]]\<rparr>, None)"
  by (simp add: inst_bias_def fill_v_data_def column_def pad_nan_def assign_row_def)

text \<open>
  Claim C7, amended. When every replica of the ensemble is shorter than the given maximum
  row count (so that none supplies the time axis), \<^verbatim>\<open>inst_bias\<close> returns normally: the
  biases padded to the maximum, shifted, and \<^verbatim>\<open>ix_col = None\<close>. \<^verbatim>\<open>avg_max_bias\<close> fails
  on the same ensemble when the maximum is not one, with the \<^verbatim>\<open>ValueError\<close> of stacking
  \<^verbatim>\<open>None\<close> on the averages. Neither function checks the ensemble itself.
\<close>

theorem aggregation_without_full_length_replica:
  assumes "colvars_count \<le> length data" and "colvars_count \<le> length maxbias"
    and "\<forall>i<colvars_count. list_all (\<lambda>row. biascol < length row \<and> 0 < length row) (data ! i)"
    and "\<forall>i<colvars_count. length (data ! i) < colvars_maxrow_count"
    and "\<forall>i<colvars_count. length (maxbias ! i) \<le> colvars_maxrow_count"
  shows "inst_bias data colvars_count colvars_maxrow_count beta biascol bias_shift =
           Inr (\<lparr>ncols = colvars_maxrow_count,
                 mrows = map (\<lambda>i. map (map_option (\<lambda>v. v + bias_shift))
                                     (pad_nan colvars_maxrow_count
                                        (map (\<lambda>row. row ! biascol) (data ! i))))
                             [0..<colvars_count]\<rparr>,
                None)
       \<and> (colvars_maxrow_count \<noteq> 1 \<longrightarrow>
            avg_max_bias maxbias data colvars_count colvars_maxrow_count beta bias_shift
              = Inl ValueError)"
proof
  let ?row = "\<lambda>i. map (map_option (\<lambda>v. v + bias_shift))
                     (pad_nan colvars_maxrow_count (map (\<lambda>row. row ! biascol) (data ! i)))"
  have step: "fill_v_data data colvars_maxrow_count biascol bias_shift i = Inr (?row i, None)"
    if "i < colvars_count" for i
  proof -
    from that assms(1) have a: "\<not> length data \<le> i" by simp
    from that assms(3) have b: "list_all (\<lambda>row. biascol < length row) (data ! i)"
      and c: "list_all (\<lambda>row. 0 < length row) (data ! i)"
      by (auto simp: list_all_iff)
    from that assms(4) have d: "length (data ! i) < colvars_maxrow_count" by simp
    have len: "length (?row i) = colvars_maxrow_count"
      using d by (simp add: pad_nan_def)
    show ?thesis
      using a b c d len by (simp add: fill_v_data_def column_def assign_row_def)
  qed
  then have "\<forall>i \<in> set [0..<colvars_count].
      \<exists>row. fill_v_data data colvars_maxrow_count biascol bias_shift i = Inr (row, None)"
    by auto
  from fill_loop_none [OF this, of "[]" None] step
  show "inst_bias data colvars_count colvars_maxrow_count beta biascol bias_shift =
          Inr (\<lparr>ncols = colvars_maxrow_count, mrows = map ?row [0..<colvars_count]\<rparr>, None)"
    by (simp add: inst_bias_def cong: map_cong)
next
  have step: "fill_vmb_data maxbias data colvars_maxrow_count i
                = Inr (pad_nan colvars_maxrow_count (maxbias ! i), None)"
    if "i < colvars_count" for i
  proof -
    from that assms(1,2) have a: "\<not> length data \<le> i" "\<not> length maxbias \<le> i" by simp_all
    from that assms(3) have c: "list_all (\<lambda>row. 0 < length row) (data ! i)"
      by (auto simp: list_all_iff)
    from that assms(4) have d: "length (data ! i) \<noteq> colvars_maxrow_count" by auto
    from that assms(5) have "length (maxbias ! i) \<le> colvars_maxrow_count" by simp
    then have len: "length (pad_nan colvars_maxrow_count (maxbias ! i)) = colvars_maxrow_count"
      by (auto simp: pad_nan_def)
    show ?thesis
      using a c d len by (simp add: fill_vmb_data_def column_def assign_row_def)
  qed
  then have "\<forall>i \<in> set [0..<colvars_count].
      \<exists>row. fill_vmb_data maxbias data colvars_maxrow_count i = Inr (row, None)"
    by auto
  from fill_loop_none [OF this, of "[]" None]
  show "colvars_maxrow_count \<noteq> 1 \<longrightarrow>
          avg_max_bias maxbias data colvars_count colvars_maxrow_count beta bias_shift
            = Inl ValueError"
    by (simp add: avg_max_bias_def np_vstack_T_def)
qed

theorem aggregation_without_full_length_replica_witness:
  "inst_bias [[[0, 5]]] 1 2 1 1 3 = Inr (\<lparr>ncols = 2, mrows = [[Some 8, None]]\<rparr>, None)
   \<and> avg_max_bias [[5]] [[[0, 5]]] 1 2 1 3 = Inl ValueError"
  using aggregation_without_full_length_replica [of 1 "[[[0, 5]]]" "[[5]]" 1 2 1 3]
  by (simp add: pad_nan_def)

text \<open>
  Claim C3. The three CDF estimators hand to the fit the same empirical CDF: the
  transition times of the transitioned replicas, sorted, against the ordinates \<open>i/N\<close> for
  \<open>i = 1..M\<close>, with \<open>M\<close> the number of transitioned replicas and \<open>N\<close> the number of
  replicas of the ensemble. (With one event flag per time; otherwise the selection of the
  transitioned replicas raises \<^verbatim>\<open>IndexError\<close>.)
\<close>

theorem empirical_cdf_of_estimators:
  "let M = bool_sum event;
       N = length event;
       ecdfx = sort (map fst (filter snd (zip t event)));
       ecdfy = map (\<lambda>i. real i / real N) [1..<M + 1]
   in if length t = length event then
        sorted ecdfx \<and> length ecdfx = M \<and> length ecdfy = M
        \<and> iMetaD_FitCDF fit t event k = fit iMetaD_CDF ecdfx ecdfy k
        \<and> KTR_CDF_rate sp vmb_average t k_bounds gamma_bounds event cores logTrick k_guess
              reg_lambda kIMD False =
            (case UnivariateSpline sp (map fst vmb_average) (map snd vmb_average) of
               Inl e \<Rightarrow> Inl e
             | Inr spline \<Rightarrow>
                 (case (if reg_lambda = 0 then
                          curve_fit sp (\<lambda>t k0 gamma. KTR_CDF sp t k0 gamma spline 4 logTrick)
                            ecdfx ecdfy k_guess
                            ((fst k_bounds, fst gamma_bounds), (snd k_bounds, snd gamma_bounds))
                        else
                          minimize sp
                            (\<lambda>params. KTR_leastsq_cost sp params ecdfx ecdfy spline cores
                                         logTrick reg_lambda kIMD)
                            k_guess) of
                    Inl e \<Rightarrow> Inl e
                  | Inr cdf_result \<Rightarrow> Inr (cdf_result, spline)))
        \<and> EATR_CDF_rate sp v_data t event k_bounds gamma_bounds beta ix_col cores k_guess
              logTrick reg_lambda kIMD False =
            (case (if reg_lambda = 0 then
                     curve_fit sp
                       (\<lambda>time k0 gamma.
                          case EATR_calculate_avg_acc sp gamma v_data beta ix_col logTrick of
                            Inl e \<Rightarrow> Inl e
                          | Inr spline \<Rightarrow> EATR_CDF sp time k0 gamma spline cores logTrick)
                       ecdfx ecdfy k_guess
                       ((fst k_bounds, fst gamma_bounds), (snd k_bounds, snd gamma_bounds))
                   else
                     minimize sp
                       (\<lambda>params.
                          case EATR_calculate_avg_acc sp (snd params) v_data beta ix_col
                                 logTrick of
                            Inl e \<Rightarrow> Inl e
                          | Inr spline \<Rightarrow>
                              EATR_leastsq_cost sp (exp (fst params)) (snd params) ecdfx ecdfy
                                spline cores logTrick reg_lambda kIMD)
                       k_guess) of
               Inl e \<Rightarrow> Inl e
             | Inr cdf_result \<Rightarrow>
                 (case EATR_calculate_avg_acc sp (snd cdf_result) v_data beta ix_col logTrick of
                    Inl e \<Rightarrow> Inl e
                  | Inr spline \<Rightarrow> Inr (cdf_result, spline)))
      else
        iMetaD_FitCDF fit t event k = Inl IndexError
        \<and> KTR_CDF_rate sp vmb_average t k_bounds gamma_bounds event cores logTrick k_guess
              reg_lambda kIMD do_bopt = Inl IndexError
        \<and> EATR_CDF_rate sp v_data t event k_bounds gamma_bounds beta ix_col cores k_guess
              logTrick reg_lambda kIMD do_bopt = Inl IndexError"
proof (cases "length t = length event")
  case True
  then have sel: "bool_index t event = Inr (map fst (filter snd (zip t event)))"
    by (simp add: bool_index_def)
  from length_bool_index [OF sel]
  have len: "length (map fst (filter snd (zip t event))) = bool_sum event" .
  show ?thesis
    using True len
    by (simp add: Let_def iMetaD_FitCDF_def KTR_CDF_rate_def EATR_CDF_rate_def sel
        arange_div_def del: upt_Suc cong: sum.case_cong)
next
  case False
  then have "bool_index t event = Inl IndexError"
    by (auto simp: bool_index_def)
  with False show ?thesis
    by (simp add: Let_def iMetaD_FitCDF_def KTR_CDF_rate_def EATR_CDF_rate_def)
qed

lemma sum_list_exp_pos: "xs \<noteq> [] \<Longrightarrow> 0 < sum_list (map (\<lambda>x. exp (h x :: real)) xs)"
proof (induction xs)
  case Nil
  then show ?case by simp
next
  case (Cons a xs)
  have "0 \<le> sum_list (map (\<lambda>x. exp (h x)) xs)"
    by (rule sum_list_nonneg) auto
  moreover have "0 < exp (h a)" by simp
  ultimately have "0 < exp (h a) + sum_list (map (\<lambda>x. exp (h x)) xs)"
    by (rule add_pos_nonneg [rotated])
  then show ?case by simp
qed

lemma exp_add_log_sum:
  "exp_add_log a (sum_list (map (\<lambda>x. exp (g x - a)) xs)) = sum_list (map (\<lambda>x. exp (g x)) xs)"
proof (cases "xs = []")
  case True
  then show ?thesis by (simp add: exp_add_log_def)
next
  case False
  let ?S = "sum_list (map (\<lambda>x. exp (g x - a)) xs)"
  from sum_list_exp_pos [OF False, of "\<lambda>x. g x - a"] have pos: "0 < ?S" .
  have "exp a * ?S = sum_list (map (\<lambda>x. exp a * exp (g x - a)) xs)"
    by (simp add: sum_list_const_mult)
  also have "\<dots> = sum_list (map (\<lambda>x. exp (g x)) xs)"
    by (simp add: mult_exp_exp)
  finally have "exp a * ?S = sum_list (map (\<lambda>x. exp (g x)) xs)" .
  with pos show ?thesis by (simp add: exp_add_log_def exp_add)
qed

lemma cum_hazard_logTrick:
  "KTR_calculate_cum_hazard sp gamma spline True t =
     0.5 * (1 + exp (gamma * spline t))
       + sum_list (map (\<lambda>x. exp (gamma * spline x)) (tl (np_arange t)))"
  "EATR_calculate_cum_hazard sp gamma spline True t =
     0.5 * (1 + exp (spline t)) + sum_list (map (\<lambda>x. exp (spline x)) (tl (np_arange t)))"
  using exp_add_log_sum [of "gamma * minimize_scalar sp (\<lambda>x. neg_spline x spline)"
      "\<lambda>x. gamma * spline x" "tl (np_arange t)"]
    exp_add_log_sum [of "minimize_scalar sp (\<lambda>x. neg_spline x spline)" spline "tl (np_arange t)"]
  by (simp_all add: KTR_calculate_cum_hazard_def EATR_calculate_cum_hazard_def Let_def
      algebra_simps)

lemma tl_np_arange_nat: "tl (np_arange (real n)) = map real [1..<n]"
proof -
  have "tl [0..<n] = [1..<n]"
    by (cases n) (simp_all add: upt_conv_Cons del: upt_Suc)
  then have "tl (map real [0..<n]) = map real [1..<n]"
    by (simp only: map_tl [symmetric])
  then show ?thesis by (simp add: np_arange_def)
qed

lemma trapezoid_unit_interior:
  "0 < n \<Longrightarrow>
   trapezoid_unit f n = (f 0 + f (real n)) / 2 + sum_list (map (\<lambda>i. f (real i)) [1..<n])"
proof (induction n)
  case 0
  then show ?case by simp
next
  case (Suc n)
  show ?case
  proof (cases "n = 0")
    case True
    then show ?thesis by (simp add: trapezoid_unit_def)
  next
    case False
    then have "0 < n" by simp
    from Suc.IH [OF this] have ih: "trapezoid_unit f n
        = (f 0 + f (real n)) / 2 + sum_list (map (\<lambda>i. f (real i)) [1..<n])" .
    have "trapezoid_unit f (Suc n) = trapezoid_unit f n + (f (real n) + f (real (n + 1))) / 2"
      by (simp add: trapezoid_unit_def)
    with ih False show ?thesis by (simp add: field_simps)
  qed
qed

text \<open>
  Claim C5, at the inputs where it fails. For the constant spline \<open>1\<close>, \<open>gamma = 1\<close> and
  \<open>t = 2\<close> the log-trick branch gives \<open>1/2 + 3/2 e\<close>, while the trapezoidal rule with step
  one over \<open>[0, 2]\<close> gives \<open>2 e\<close>, and so does the direct branch: the log-trick branch
  takes the literal \<open>1\<close> for the integrand at \<open>0\<close>. For the spline \<open>0\<close> and \<open>t = 0\<close> it gives
  \<open>1\<close>, the trapezoidal rule over \<open>[0, 0]\<close> gives \<open>0\<close>.
\<close>

theorem logTrick_differs_from_trapezoid:
  "KTR_calculate_cum_hazard scipy_const 1 (\<lambda>x. 1) True 2
     \<noteq> trapezoid_unit (\<lambda>x. exp (1 * (\<lambda>x. 1) x)) 2
   \<and> KTR_calculate_cum_hazard scipy_const 1 (\<lambda>x. 1) False 2
     = trapezoid_unit (\<lambda>x. exp (1 * (\<lambda>x. 1) x)) 2
   \<and> KTR_calculate_cum_hazard scipy_const 1 (\<lambda>x. 0) True 0 = 1
   \<and> trapezoid_unit (\<lambda>x. exp (1 * (\<lambda>x. 0) x)) 0 = 0"
proof -
  have a: "KTR_calculate_cum_hazard scipy_const 1 (\<lambda>x. 1) True 2 = 1 / 2 + 3 / 2 * exp 1"
    using cum_hazard_logTrick(1) [of scipy_const 1 "\<lambda>x. 1" 2] tl_np_arange_nat [of 2]
    by (simp add: upt_conv_Cons field_simps)
  have b: "trapezoid_unit (\<lambda>x. exp (1 * (\<lambda>x. 1) x)) 2 = 2 * exp 1"
    by (simp add: trapezoid_unit_def upt_conv_Cons)
  have c: "KTR_calculate_cum_hazard scipy_const 1 (\<lambda>x. 1) False 2 = 2 * exp 1"
    by (simp add: KTR_calculate_cum_hazard_def scipy_const_def)
  have d: "KTR_calculate_cum_hazard scipy_const 1 (\<lambda>x. 0) True 0 = 1"
    by (simp add: KTR_calculate_cum_hazard_def np_arange_def exp_add_log_def)
  have e: "trapezoid_unit (\<lambda>x. exp (1 * (\<lambda>x. 0) x)) 0 = 0"
    by (simp add: trapezoid_unit_def)
  have "exp (1::real) \<noteq> 1" by simp
  then have "1 / 2 + 3 / 2 * exp 1 \<noteq> 2 * exp (1::real)" by argo
  with a b c d e show ?thesis by simp
qed

text \<open>
  Where the two agree. In exact arithmetic the log-trick branch of the cumulative hazard
  is \<open>(1 + f t) / 2\<close> plus the sum of \<open>f\<close> over the whole numbers \<open>1, 2, ...\<close> below \<open>t\<close>,
  where \<open>f\<close> is the integrand of the direct branch. This is the trapezoidal rule with step
  one over \<open>[0, t]\<close> when \<open>t\<close> is a positive whole number and the spline is zero at \<open>0\<close>.
\<close>

lemma logTrick_cum_hazard_value:
  "KTR_calculate_cum_hazard sp gamma spline True t =
     0.5 * (1 + exp (gamma * spline t))
       + sum_list (map (\<lambda>x. exp (gamma * spline x)) (tl (np_arange t)))
   \<and> EATR_calculate_cum_hazard sp gamma spline True t =
     0.5 * (1 + exp (spline t)) + sum_list (map (\<lambda>x. exp (spline x)) (tl (np_arange t)))
   \<and> (spline 0 = 0 \<and> 0 < n \<longrightarrow>
        KTR_calculate_cum_hazard sp gamma spline True (real n)
          = trapezoid_unit (\<lambda>x. exp (gamma * spline x)) n
        \<and> EATR_calculate_cum_hazard sp gamma spline True (real n)
          = trapezoid_unit (\<lambda>x. exp (spline x)) n)"
proof (intro conjI impI)
  show "KTR_calculate_cum_hazard sp gamma spline True t =
     0.5 * (1 + exp (gamma * spline t))
       + sum_list (map (\<lambda>x. exp (gamma * spline x)) (tl (np_arange t)))"
    by (rule cum_hazard_logTrick)
  show "EATR_calculate_cum_hazard sp gamma spline True t =
     0.5 * (1 + exp (spline t)) + sum_list (map (\<lambda>x. exp (spline x)) (tl (np_arange t)))"
    by (rule cum_hazard_logTrick)
next
  assume h: "spline 0 = 0 \<and> 0 < n"
  then have n: "0 < n" and z: "spline 0 = 0" by simp_all
  show "KTR_calculate_cum_hazard sp gamma spline True (real n)
          = trapezoid_unit (\<lambda>x. exp (gamma * spline x)) n"
    using trapezoid_unit_interior [OF n, of "\<lambda>x. exp (gamma * spline x)"] z
    by (simp add: cum_hazard_logTrick(1) tl_np_arange_nat comp_def field_simps)
  show "EATR_calculate_cum_hazard sp gamma spline True (real n)
          = trapezoid_unit (\<lambda>x. exp (spline x)) n"
    using trapezoid_unit_interior [OF n, of "\<lambda>x. exp (spline x)"] z
    by (simp add: cum_hazard_logTrick(2) tl_np_arange_nat comp_def field_simps)
qed

lemma logTrick_cum_hazard_value_at_zero_spline:
  "(\<lambda>x::real. 0::real) 0 = 0 \<and> (0::nat) < 2
   \<and> KTR_calculate_cum_hazard scipy_const 1 (\<lambda>x. 0) True (real (2::nat)) = 2
   \<and> trapezoid_unit (\<lambda>x. exp (1 * (\<lambda>x. 0) x)) 2 = 2"
  using logTrick_cum_hazard_value [of scipy_const 1 "\<lambda>x. 0" 0 2]
  by (simp add: trapezoid_unit_def upt_conv_Cons)

lemma recip_mean_t_np_div: "0 < M \<Longrightarrow> recip_mean_t S M = np_div (real M) S"
  by (simp add: recip_mean_t_def np_div_def Let_def)

text \<open>
  Claim C4. On the default path (\<open>do_bopt = False\<close>) \<^verbatim>\<open>KTR_MLE_rate\<close> and
  \<^verbatim>\<open>EATR_MLE_rate\<close> take \<open>gamma\<close> from the bounded scalar minimiser, run on the negative
  profile log-likelihood over \<open>gamma_bounds\<close>; with a minimiser that stays inside its
  bounds the returned \<open>gamma\<close> lies in \<open>gamma_bounds\<close>, and with at least one transition
  the returned rate is \<open>M\<close> over the sum of the cumulative hazards at that \<open>gamma\<close>. For
  EATR the spline is the one built at the returned \<open>gamma\<close>.
\<close>

theorem MLE_rate_gamma_in_bounds:
  assumes "respects_bounds sp" and "1 \<le> cores" and "0 < bool_sum event"
    and "UnivariateSpline sp (map fst vmb_average) (map snd vmb_average) = Inr spline"
    and "minimize_bounded sp
           (\<lambda>gamma. KTR_calculate_log_l sp gamma event t spline cores logTrick reg_lambda)
           gamma_bounds = Inr g"
    and "minimize_bounded sp
           (\<lambda>gamma. case EATR_calculate_avg_acc sp gamma v_data beta ix_col logTrick of
                       Inl e \<Rightarrow> Inl e
                     | Inr spline \<Rightarrow>
                         EATR_calculate_log_l sp gamma event t spline cores logTrick reg_lambda)
           gamma_bounds = Inr g'"
    and "EATR_calculate_avg_acc sp g' v_data beta ix_col logTrick = Inr spline'"
  shows "KTR_MLE_rate sp vmb_average t event gamma_bounds cores logTrick reg_lambda False =
           Inr ((np_div (real (bool_sum event))
                   (sum_list (map (KTR_calculate_cum_hazard sp g spline logTrick) t)), g),
                spline)
       \<and> fst gamma_bounds \<le> g \<and> g \<le> snd gamma_bounds
       \<and> EATR_MLE_rate sp v_data t event gamma_bounds beta ix_col cores logTrick reg_lambda
             False =
           Inr ((np_div (real (bool_sum event))
                   (sum_list (map (EATR_calculate_cum_hazard sp g' spline' logTrick) t)), g'),
                spline')
       \<and> fst gamma_bounds \<le> g' \<and> g' \<le> snd gamma_bounds"
proof -
  from assms(1,5) have b: "fst gamma_bounds \<le> g \<and> g \<le> snd gamma_bounds"
    unfolding respects_bounds_def by blast
  from assms(1,6) have b': "fst gamma_bounds \<le> g' \<and> g' \<le> snd gamma_bounds"
    unfolding respects_bounds_def by blast
  have k: "KTR_MLE_rate sp vmb_average t event gamma_bounds cores logTrick reg_lambda False =
           Inr ((np_div (real (bool_sum event))
                   (sum_list (map (KTR_calculate_cum_hazard sp g spline logTrick) t)), g),
                spline)"
    using assms(2,3,4,5)
    by (simp add: KTR_MLE_rate_def KTR_MLE_objective_def pool_map_def recip_mean_t_np_div)
  have e: "EATR_MLE_rate sp v_data t event gamma_bounds beta ix_col cores logTrick reg_lambda
             False =
           Inr ((np_div (real (bool_sum event))
                   (sum_list (map (EATR_calculate_cum_hazard sp g' spline' logTrick) t)), g'),
                spline')"
    using assms(2,3,6,7)
    by (simp add: EATR_MLE_rate_def log_l_aa_def pool_map_def recip_mean_t_np_div)
  from b b' k e show ?thesis by simp
qed

lemma respects_bounds_scipy_const: "respects_bounds scipy_const"
  by (auto simp: respects_bounds_def scipy_const_def split: if_splits)

theorem MLE_rate_gamma_in_bounds_witness:
  "KTR_MLE_rate scipy_const [] [1] [True] (0, 1) 4 True 0 False
     = Inr ((Num 1, 0), \<lambda>t. 0)
   \<and> EATR_MLE_rate scipy_const \<lparr>ncols = 1, mrows = [[Some 0]]\<rparr> [1] [True] (0, 1) 1 (Some [0])
        4 True 0 False
     = Inr ((Num 1, 0), \<lambda>t. 0)"
proof -
  have a5: "minimize_bounded scipy_const
           (\<lambda>gamma. KTR_calculate_log_l scipy_const gamma [True] [1] (\<lambda>t. 0) 4 True 0)
           (0, 1) = Inr 0"
    by (simp add: scipy_const_def)
  have a6: "minimize_bounded scipy_const
           (\<lambda>gamma. case EATR_calculate_avg_acc scipy_const gamma
                            \<lparr>ncols = 1, mrows = [[Some 0]]\<rparr> 1 (Some [0]) True of
                       Inl e \<Rightarrow> Inl e
                     | Inr spline \<Rightarrow>
                         EATR_calculate_log_l scipy_const gamma [True] [1] spline 4 True 0)
           (0, 1) = Inr 0"
    by (simp add: scipy_const_def)
  have a7: "EATR_calculate_avg_acc scipy_const 0 \<lparr>ncols = 1, mrows = [[Some 0]]\<rparr> 1 (Some [0])
              True = Inr (\<lambda>t. 0)"
    by (simp add: EATR_calculate_avg_acc_def np_vstack_T_def scipy_const_def)
  have a4: "UnivariateSpline scipy_const (map fst []) (map snd []) = Inr (\<lambda>t. 0)"
    by (simp add: scipy_const_def)
  have m: "0 < bool_sum [True]" by (simp add: bool_sum_def)
  have h: "KTR_calculate_cum_hazard scipy_const 0 (\<lambda>t. 0) True 1 = 1"
    "EATR_calculate_cum_hazard scipy_const 0 (\<lambda>t. 0) True 1 = 1"
    by (simp_all add: KTR_calculate_cum_hazard_def EATR_calculate_cum_hazard_def
        np_arange_def exp_add_log_def)
  from MLE_rate_gamma_in_bounds [OF respects_bounds_scipy_const _ m a4 a5 a6 a7]
  show ?thesis by (simp add: h np_div_def bool_sum_def)
qed

lemma CDF_entries:
  "KTR_CDF sp ts k0 gamma spline cores logTrick
     = Inr (map (KTR_CDF_at sp k0 gamma spline logTrick) ts)"
  "1 \<le> cores \<Longrightarrow> EATR_CDF sp ts k0 gamma spline cores logTrick
     = Inr (map (EATR_CDF_at sp k0 gamma spline logTrick) ts)"
  by (simp_all add: KTR_CDF_def EATR_CDF_def pool_map_def KTR_CDF_at_def EATR_CDF_at_def
      comp_def)

lemma EATR_as_KTR:
  "EATR_calculate_cum_hazard sp gamma spline logTrick t
     = KTR_calculate_cum_hazard sp 1 spline logTrick t"
  "EATR_CDF_at sp k0 gamma spline logTrick t = KTR_CDF_at sp k0 1 spline logTrick t"
  by (simp_all add: EATR_calculate_cum_hazard_def KTR_calculate_cum_hazard_def
      EATR_CDF_at_def KTR_CDF_at_def mult.commute)

lemma exact_quad_zero: "exact_quad sp f \<Longrightarrow> quad sp f 0 0 = 0"
  by (auto simp: exact_quad_def)

lemma exact_quad_mono:
  assumes "exact_quad sp f" and "\<And>x. c \<le> f x" and "s \<le> t"
  shows "quad sp f 0 s + c * (t - s) \<le> quad sp f 0 t"
proof -
  from assms(1) obtain F where d: "\<And>x. (F has_real_derivative f x) (at x)"
    and q: "\<And>a b. quad sp f a b = F b - F a"
    by (auto simp: exact_quad_def)
  let ?G = "\<lambda>x. F x - c * x"
  have "?G s \<le> ?G t"
  proof (rule DERIV_nonneg_imp_nondecreasing [OF assms(3)])
    fix x
    have "(?G has_real_derivative f x - c) (at x)"
      by (auto intro!: derivative_eq_intros d)
    moreover have "0 \<le> f x - c" using assms(2) [of x] by simp
    ultimately show "\<exists>y. (?G has_real_derivative y) (at x) \<and> 0 \<le> y" by blast
  qed
  then show ?thesis by (simp add: q algebra_simps)
qed

lemma direct_cum_hazard:
  assumes "exact_quad sp (\<lambda>x. exp (gamma * spline x))"
  shows "KTR_calculate_cum_hazard sp gamma spline False 0 = 0"
    and "s \<le> t \<Longrightarrow> KTR_calculate_cum_hazard sp gamma spline False s
                      \<le> KTR_calculate_cum_hazard sp gamma spline False t"
    and "(\<And>x. lo \<le> gamma * spline x) \<Longrightarrow> 0 \<le> t \<Longrightarrow>
           exp lo * t \<le> KTR_calculate_cum_hazard sp gamma spline False t"
proof -
  show "KTR_calculate_cum_hazard sp gamma spline False 0 = 0"
    using exact_quad_zero [OF assms] by (simp add: KTR_calculate_cum_hazard_def)
  show "KTR_calculate_cum_hazard sp gamma spline False s
          \<le> KTR_calculate_cum_hazard sp gamma spline False t" if "s \<le> t"
    using exact_quad_mono [OF assms, of 0 s t] that
    by (simp add: KTR_calculate_cum_hazard_def)
  show "exp lo * t \<le> KTR_calculate_cum_hazard sp gamma spline False t"
    if "\<And>x. lo \<le> gamma * spline x" and "0 \<le> t"
    using exact_quad_mono [OF assms, of "exp lo" 0 t] that exact_quad_zero [OF assms]
    by (simp add: KTR_calculate_cum_hazard_def)
qed

lemma cdf_tends_to_one:
  fixes H :: "'a \<Rightarrow> real"
  assumes "0 < k0" and "0 < c" and "filterlim g at_top F"
    and "eventually (\<lambda>x. c * g x \<le> H x) F"
  shows "((\<lambda>x. 1 - exp (- k0 * H x)) \<longlongrightarrow> 1) F"
proof -
  from assms(1,2) have "0 < k0 * c" by simp
  from filterlim_tendsto_pos_mult_at_top [OF tendsto_const this assms(3)]
  have "LIM x F. k0 * c * g x :> at_top" .
  moreover from assms(4) have "eventually (\<lambda>x. k0 * c * g x \<le> k0 * H x) F"
  proof (rule eventually_mono)
    fix x assume "c * g x \<le> H x"
    with assms(1) have "k0 * (c * g x) \<le> k0 * H x" by (simp add: mult_left_mono)
    then show "k0 * c * g x \<le> k0 * H x" by (simp add: mult.assoc)
  qed
  ultimately have "LIM x F. k0 * H x :> at_top" by (rule filterlim_at_top_mono)
  then have "LIM x F. - (k0 * H x) :> at_bot" by (simp add: filterlim_uminus_at_top)
  from filterlim_compose [OF exp_at_bot this]
  have "((\<lambda>x. exp (- (k0 * H x))) \<longlongrightarrow> 0) F" .
  from tendsto_diff [OF tendsto_const this, of 1] show ?thesis by simp
qed

lemma KTR_CDF_at_properties:
  assumes "0 < k0"
  shows "exact_quad sp (\<lambda>x. exp (gamma * spline x)) \<Longrightarrow>
           KTR_CDF_at sp k0 gamma spline False 0 = 0"
    and "exact_quad sp (\<lambda>x. exp (gamma * spline x)) \<Longrightarrow> s \<le> t \<Longrightarrow>
           KTR_CDF_at sp k0 gamma spline False s \<le> KTR_CDF_at sp k0 gamma spline False t"
    and "exact_quad sp (\<lambda>x. exp (gamma * spline x)) \<Longrightarrow> (\<And>x. lo \<le> gamma * spline x) \<Longrightarrow>
           (KTR_CDF_at sp k0 gamma spline False \<longlongrightarrow> 1) at_top"
proof -
  show "KTR_CDF_at sp k0 gamma spline False 0 = 0"
    if "exact_quad sp (\<lambda>x. exp (gamma * spline x))"
    using direct_cum_hazard(1) [OF that] by (simp add: KTR_CDF_at_def)
  show "KTR_CDF_at sp k0 gamma spline False s \<le> KTR_CDF_at sp k0 gamma spline False t"
    if "exact_quad sp (\<lambda>x. exp (gamma * spline x))" and "s \<le> t"
    using direct_cum_hazard(2) [OF that] assms
    by (simp add: KTR_CDF_at_def mult_left_mono)
  show "(KTR_CDF_at sp k0 gamma spline False \<longlongrightarrow> 1) at_top"
    if q: "exact_quad sp (\<lambda>x. exp (gamma * spline x))" and b: "\<And>x. lo \<le> gamma * spline x"
  proof -
    have "eventually (\<lambda>t. exp lo * t \<le> KTR_calculate_cum_hazard sp gamma spline False t) at_top"
      using eventually_ge_at_top [of 0]
      by (rule eventually_mono) (rule direct_cum_hazard(3) [OF q b])
    from cdf_tends_to_one [OF assms _ filterlim_ident this, of ] show ?thesis
      by (simp add: KTR_CDF_at_def [abs_def])
  qed
qed

lemma exact_quad_scipy_const: "exact_quad scipy_const (\<lambda>x. 1)"
proof -
  have "(\<forall>x::real. ((\<lambda>x. x) has_real_derivative 1) (at x))
          \<and> (\<forall>a b. quad scipy_const (\<lambda>x. 1) a b = (\<lambda>x. x) b - (\<lambda>x. x) a)"
    by (simp add: scipy_const_def)
  then show ?thesis unfolding exact_quad_def by blast
qed

text \<open>
  With the direct quadrature the model CDF is as the specification asks. For \<open>k0 > 0\<close> the
  arrays returned by \<^verbatim>\<open>KTR_CDF\<close> and \<^verbatim>\<open>EATR_CDF\<close> hold \<open>1 - exp (- k0 * H t)\<close> for each time
  \<open>t\<close>; when the quadrature returns the difference of an antiderivative of the integrand,
  the CDF is \<open>0\<close> at \<open>t = 0\<close> and non-decreasing in \<open>t\<close>, and it tends to \<open>1\<close> as \<open>t\<close> grows
  when the exponent of the integrand is bounded below.
\<close>

lemma direct_CDF_zero_monotone_limit:
  assumes "0 < k0"
  shows "KTR_CDF sp ts k0 gamma spline cores logTrick
           = Inr (map (KTR_CDF_at sp k0 gamma spline logTrick) ts)
       \<and> (1 \<le> cores \<longrightarrow>
            EATR_CDF sp ts k0 gamma spline cores logTrick
              = Inr (map (EATR_CDF_at sp k0 gamma spline logTrick) ts))
       \<and> (exact_quad sp (\<lambda>x. exp (gamma * spline x)) \<longrightarrow>
            KTR_CDF_at sp k0 gamma spline False 0 = 0
            \<and> (\<forall>s t. s \<le> t \<longrightarrow>
                  KTR_CDF_at sp k0 gamma spline False s \<le> KTR_CDF_at sp k0 gamma spline False t)
            \<and> ((\<exists>lo. \<forall>x. lo \<le> gamma * spline x) \<longrightarrow>
                  (KTR_CDF_at sp k0 gamma spline False \<longlongrightarrow> 1) at_top))
       \<and> (exact_quad sp (\<lambda>x. exp (spline x)) \<longrightarrow>
            EATR_CDF_at sp k0 gamma spline False 0 = 0
            \<and> (\<forall>s t. s \<le> t \<longrightarrow>
                  EATR_CDF_at sp k0 gamma spline False s
                    \<le> EATR_CDF_at sp k0 gamma spline False t)
            \<and> ((\<exists>lo. \<forall>x. lo \<le> spline x) \<longrightarrow>
                  (EATR_CDF_at sp k0 gamma spline False \<longlongrightarrow> 1) at_top))"
proof -
  note K = KTR_CDF_at_properties [OF assms]
  have e: "EATR_CDF_at sp k0 gamma spline lt = KTR_CDF_at sp k0 1 spline lt" for lt
    by (rule ext) (rule EATR_as_KTR(2))
  have dK: "exact_quad sp (\<lambda>x. exp (gamma * spline x)) \<longrightarrow>
            KTR_CDF_at sp k0 gamma spline False 0 = 0
            \<and> (\<forall>s t. s \<le> t \<longrightarrow>
                  KTR_CDF_at sp k0 gamma spline False s \<le> KTR_CDF_at sp k0 gamma spline False t)
            \<and> ((\<exists>lo. \<forall>x. lo \<le> gamma * spline x) \<longrightarrow>
                  (KTR_CDF_at sp k0 gamma spline False \<longlongrightarrow> 1) at_top)" for gamma
    using K(1,2,3) [of sp gamma spline] by blast
  from dK [of 1] have dE: "exact_quad sp (\<lambda>x. exp (spline x)) \<longrightarrow>
            EATR_CDF_at sp k0 gamma spline False 0 = 0
            \<and> (\<forall>s t. s \<le> t \<longrightarrow>
                  EATR_CDF_at sp k0 gamma spline False s
                    \<le> EATR_CDF_at sp k0 gamma spline False t)
            \<and> ((\<exists>lo. \<forall>x. lo \<le> spline x) \<longrightarrow>
                  (EATR_CDF_at sp k0 gamma spline False \<longlongrightarrow> 1) at_top)"
    by (simp add: e)
  from CDF_entries [where sp = sp and ts = ts and ?k0.0 = k0 and gamma = gamma and spline = spline
      and cores = cores and logTrick = logTrick] dK [of gamma] dE
  show ?thesis by blast
qed

text \<open>
  With the log-trick the model CDF at \<open>t = 0\<close> is positive, whatever the rate, \<open>gamma\<close> and
  the spline: the grid \<^verbatim>\<open>np.arange(0, t, dt)\<close> is empty there and the branch returns
  \<open>(1 + exp (gamma * spline 0)) / 2\<close>.
\<close>

lemma logTrick_CDF_at_zero:
  "KTR_CDF_at sp k0 gamma spline True 0 = 1 - exp (- k0 * ((1 + exp (gamma * spline 0)) / 2))"
  "EATR_CDF_at sp k0 gamma spline True 0 = 1 - exp (- k0 * ((1 + exp (spline 0)) / 2))"
  "0 < k0 \<Longrightarrow> 0 < KTR_CDF_at sp k0 gamma spline True 0"
  "0 < k0 \<Longrightarrow> 0 < EATR_CDF_at sp k0 gamma spline True 0"
proof -
  have h: "KTR_calculate_cum_hazard sp gamma spline True 0 = (1 + exp (gamma * spline 0)) / 2"
    "EATR_calculate_cum_hazard sp gamma spline True 0 = (1 + exp (spline 0)) / 2"
    by (simp_all add: KTR_calculate_cum_hazard_def EATR_calculate_cum_hazard_def np_arange_def
        exp_add_log_def)
  show "KTR_CDF_at sp k0 gamma spline True 0
          = 1 - exp (- k0 * ((1 + exp (gamma * spline 0)) / 2))"
    by (simp add: KTR_CDF_at_def h)
  show "EATR_CDF_at sp k0 gamma spline True 0 = 1 - exp (- k0 * ((1 + exp (spline 0)) / 2))"
    by (simp add: EATR_CDF_at_def h mult.commute)
  have p: "0 < (1 + exp y) / 2" for y :: real
    by (simp add: add_pos_pos)
  show "0 < KTR_CDF_at sp k0 gamma spline True 0" if "0 < k0"
    using that p [of "gamma * spline 0"] by (simp add: KTR_CDF_at_def h mult_pos_pos)
  show "0 < EATR_CDF_at sp k0 gamma spline True 0" if "0 < k0"
    using that p [of "spline 0"] by (simp add: EATR_CDF_at_def h mult_pos_pos)
qed

text \<open>
  Claim C2, at the input where it fails. For the spline \<open>0\<close>, \<open>k0 = 1\<close> and \<open>gamma = 0\<close> the
  model CDF of KTR and of EATR at \<open>t = 0\<close> is \<open>1 - exp (- 1)\<close> with the log-trick, not \<open>0\<close>;
  with the direct quadrature it is \<open>0\<close> at the same input.
\<close>

theorem logTrick_CDF_at_zero_is_positive:
  "KTR_CDF scipy_const [0] 1 0 (\<lambda>x. 0) 4 True = Inr [1 - exp (- 1)]
   \<and> KTR_CDF scipy_const [0] 1 0 (\<lambda>x. 0) 4 True \<noteq> Inr [0]
   \<and> EATR_CDF scipy_const [0] 1 0 (\<lambda>x. 0) 4 True = Inr [1 - exp (- 1)]
   \<and> KTR_CDF scipy_const [0] 1 0 (\<lambda>x. 0) 4 False = Inr [0]
   \<and> EATR_CDF scipy_const [0] 1 0 (\<lambda>x. 0) 4 False = Inr [0]"
proof -
  have a: "KTR_calculate_cum_hazard scipy_const 0 (\<lambda>x. 0) True 0 = 1"
    "EATR_calculate_cum_hazard scipy_const 0 (\<lambda>x. 0) True 0 = 1"
    by (simp_all add: KTR_calculate_cum_hazard_def EATR_calculate_cum_hazard_def np_arange_def
        exp_add_log_def)
  have b: "KTR_calculate_cum_hazard scipy_const 0 (\<lambda>x. 0) False 0 = 0"
    "EATR_calculate_cum_hazard scipy_const 0 (\<lambda>x. 0) False 0 = 0"
    by (simp_all add: KTR_calculate_cum_hazard_def EATR_calculate_cum_hazard_def
        scipy_const_def)
  from a b show ?thesis
    by (simp add: KTR_CDF_def EATR_CDF_def pool_map_def)
qed

lemma ks_bracket_steps:
  assumes "\<forall>j\<in>{1..n}. test (length tried + j - 1) ((step ^^ j) x) = Inr (fit j, p j)"
    and "\<forall>j\<in>{1..<n}. p j > 0.05 \<and> guard ((step ^^ j) x)"
    and "\<not> (p n > 0.05 \<and> guard ((step ^^ n) x))"
    and "0 < n" and "p0 > 0.05" and "guard x"
  shows "ks_bracket step guard test x p0 good_fit tried
           = Some (Inr (if p n > 0.05 then Some (fit n)
                        else if n = 1 then good_fit else Some (fit (n - 1)),
                        tried @ map (\<lambda>j. (step ^^ j) x) [1..<Suc n]))"
  using assms
proof (induction n arbitrary: x p0 good_fit tried fit p)
  case 0
  then show ?case by simp
next
  case (Suc m)
  let ?x = "step x"
  from Suc.prems(1) have t1: "test (length tried) ?x = Inr (fit 1, p 1)"
    by (auto dest: bspec [where x = 1])
  show ?case
  proof (cases "m = 0")
    case True
    with Suc.prems(3) have stop: "\<not> (p 1 > 0.05 \<and> guard ?x)" by simp
    have "ks_bracket step guard test x p0 good_fit tried
            = ks_bracket step guard test ?x (p 1)
                (if p 1 > 0.05 then Some (fit 1) else good_fit) (tried @ [?x])"
      using Suc.prems(5,6) t1 by (subst ks_bracket.simps) (simp add: Let_def)
    also have "\<dots> = Some (Inr (if p 1 > 0.05 then Some (fit 1) else good_fit, tried @ [?x]))"
      using stop by (subst ks_bracket.simps) (auto simp: Let_def)
    finally show ?thesis using True by simp
  next
    case False
    then have m: "0 < m" by simp
    from Suc.prems(2) m have go: "p 1 > 0.05" "guard ?x"
      by (auto dest: bspec [where x = 1])
    have "ks_bracket step guard test x p0 good_fit tried
            = ks_bracket step guard test ?x (p 1) (Some (fit 1)) (tried @ [?x])"
      using Suc.prems(5,6) t1 go by (subst ks_bracket.simps) (simp add: Let_def)
    also have "\<dots> = Some (Inr (if p (Suc m) > 0.05 then Some (fit (Suc m))
                        else if m = 1 then Some (fit 1) else Some (fit (Suc (m - 1))),
                        (tried @ [?x]) @ map (\<lambda>j. (step ^^ j) ?x) [1..<Suc m]))"
    proof (rule Suc.IH [where fit = "\<lambda>j. fit (Suc j)" and p = "\<lambda>j. p (Suc j)"])
      show "\<forall>j\<in>{1..m}. test (length (tried @ [?x]) + j - 1) ((step ^^ j) ?x)
              = Inr (fit (Suc j), p (Suc j))"
      proof
        fix j assume "j \<in> {1..m}"
        then have "Suc j \<in> {1..Suc m}" by simp
        from bspec [OF Suc.prems(1) this] show
          "test (length (tried @ [?x]) + j - 1) ((step ^^ j) ?x) = Inr (fit (Suc j), p (Suc j))"
          using \<open>j \<in> {1..m}\<close> by (simp add: funpow_swap1)
      qed
      show "\<forall>j\<in>{1..<m}. p (Suc j) > 0.05 \<and> guard ((step ^^ j) ?x)"
      proof
        fix j assume "j \<in> {1..<m}"
        then have "Suc j \<in> {1..<Suc m}" by simp
        from bspec [OF Suc.prems(2) this] show "p (Suc j) > 0.05 \<and> guard ((step ^^ j) ?x)"
          by (simp add: funpow_swap1)
      qed
      show "\<not> (p (Suc m) > 0.05 \<and> guard ((step ^^ m) ?x))"
        using Suc.prems(3) by (simp add: funpow_swap1)
      show "0 < m" by (rule m)
      show "p 1 > 0.05" by (rule go)
      show "guard ?x" by (rule go)
    qed
    also have "(tried @ [?x]) @ map (\<lambda>j. (step ^^ j) ?x) [1..<Suc m]
                 = tried @ map (\<lambda>j. (step ^^ j) x) [1..<Suc (Suc m)]"
    proof -
      have "map (\<lambda>j. (step ^^ j) x) [1..<Suc (Suc m)]
              = (step ^^ 1) x # map (\<lambda>j. (step ^^ j) x) (map Suc [1..<Suc m])"
        by (simp only: map_Suc_upt) (simp add: upt_conv_Cons del: upt_Suc)
      also have "\<dots> = ?x # map (\<lambda>j. (step ^^ j) ?x) [1..<Suc m]"
        by (simp add: comp_def funpow_swap1 del: upt_Suc)
      finally show ?thesis by simp
    qed
    finally show ?thesis using m by (auto simp: Suc_diff_Suc)
  qed
qed

text \<open>A run of the loop, from the entry state of every search.\<close>

lemma ks_bracket_run:
  assumes "ks_run guard test xs n fit p" and "\<And>j. xs j = (step ^^ j) (xs 0)"
  shows "ks_bracket step guard test (xs 0) 0.06 None []
           = Some (Inr (last_passed n fit p, map xs [1..<Suc n]))"
proof -
  from assms(1) have a: "0 < n" "guard (xs 0)"
    "\<forall>j\<in>{1..n}. test (j - 1) (xs j) = Inr (fit j, p j)"
    "\<forall>j\<in>{1..<n}. p j > 0.05 \<and> guard (xs j)"
    "\<not> (p n > 0.05 \<and> guard (xs n))"
    by (simp_all add: ks_run_def)
  have s: "(step ^^ j) (xs 0) = xs j" for j by (rule assms(2) [symmetric])
  have "ks_bracket step guard test (xs 0) 0.06 None []
          = Some (Inr (if p n > 0.05 then Some (fit n)
                       else if n = 1 then None else Some (fit (n - 1)),
                       [] @ map (\<lambda>j. (step ^^ j) (xs 0)) [1..<Suc n]))"
    by (rule ks_bracket_steps) (use a in \<open>simp_all add: s\<close>)
  then show ?thesis by (simp add: last_passed_def s)
qed

lemma ks_bracket_no_step:
  "\<not> guard x \<Longrightarrow> ks_bracket step guard test x p good_fit tried = Some (Inr (good_fit, tried))"
  by (subst ks_bracket.simps) simp

lemma funpow_mult_real: "((\<lambda>k_i::real. k_i * c) ^^ j) k = k * c ^ j"
  by (induction j) (simp_all add: algebra_simps)

lemma funpow_add_real: "((\<lambda>g::real. g + d) ^^ j) g = g + d * real j"
  by (induction j) (simp_all add: algebra_simps)

lemma iMetaD_KS_test_fit:
  "iMetaD_KS_test st final_times1 draws n k_i = Inr (f, p) \<Longrightarrow> f = k_i"
  by (auto simp: iMetaD_KS_test_def split: sum.splits)

text \<open>
  The searches of the rate of infrequent metadynamics: the rates tried are the fitted
  rate times the powers \<open>1, ..., n\<close> of the step, and the entry reported is the last of
  them that passed, or the fitted rate when the first one failed.
\<close>

lemma iMetaD_CDF_KS_run:
  assumes "ks_run (\<lambda>k_i. True) (iMetaD_KS_test st final_times1 draws)
             (\<lambda>j. k * (10 powr (if down then - 0.02 else 0.02)) ^ j) n fit p"
  shows "iMetaD_CDF_KS st down final_times1 draws rate_conv k
           = Some (Inr ((if n = 1 then k
                         else k * (10 powr (if down then - 0.02 else 0.02)) ^ (n - 1)) * rate_conv,
                        map (\<lambda>j. k * (10 powr (if down then - 0.02 else 0.02)) ^ j) [1..<Suc n]))"
proof -
  let ?c = "10 powr (if down then - 0.02 else 0.02) :: real"
  let ?xs = "\<lambda>j. k * ?c ^ j"
  let ?step = "\<lambda>k_i::real. if down then k_i * 10 powr (- 0.02) else k_i * 10 powr 0.02"
  have step: "?step = (\<lambda>k_i. k_i * ?c)" by auto
  have xs: "?xs j = (?step ^^ j) (?xs 0)" for j
    by (simp only: step funpow_mult_real) simp
  from assms have n: "0 < n" and stop: "\<not> p n > 0.05"
    and t: "\<forall>j\<in>{1..n}. iMetaD_KS_test st final_times1 draws (j - 1) (?xs j) = Inr (fit j, p j)"
    by (simp_all add: ks_run_def)
  have fit: "fit j = ?xs j" if "j \<in> {1..n}" for j
    using bspec [OF t that] by (rule iMetaD_KS_test_fit)
  have l: "last_passed n fit p = (if n = 1 then None else Some (?xs (n - 1)))"
    using stop n fit [of "n - 1"] by (auto simp: last_passed_def)
  from ks_bracket_run [OF assms, of ?step] xs
  have "ks_bracket ?step (\<lambda>k_i. True) (iMetaD_KS_test st final_times1 draws) (?xs 0) 0.06 None []
          = Some (Inr (last_passed n fit p, map ?xs [1..<Suc n]))"
    by blast
  then show ?thesis
    by (simp add: iMetaD_CDF_KS_def l del: upt_Suc)
qed

lemma iMetaD_tried_strictly_monotone:
  fixes k :: real
  assumes "0 < k"
  shows "sorted_wrt (\<lambda>a b. b < a) (map (\<lambda>j. k * (10 powr (- 0.02)) ^ j) [1..<Suc n])"
    and "sorted_wrt (\<lambda>a b. a < b) (map (\<lambda>j. k * (10 powr 0.02) ^ j) [1..<Suc n])"
proof -
  let ?lo = "(10::real) powr (- 0.02)" and ?hi = "(10::real) powr 0.02"
  have lo: "0 < ?lo" "?lo < 1"
    by (simp_all add: powr_less_one)
  have hi: "1 < ?hi"
    by (simp add: gr_one_powr)
  have "sorted_wrt (\<lambda>i j. k * ?lo ^ j < k * ?lo ^ i) [1..<Suc n]"
  proof (rule sorted_wrt_mono_rel [OF _ sorted_wrt_upt])
    fix i j :: nat
    assume "i < j"
    then have "?lo ^ j < ?lo ^ i" using lo by (rule power_strict_decreasing)
    with assms show "k * ?lo ^ j < k * ?lo ^ i" by simp
  qed
  then show "sorted_wrt (\<lambda>a b. b < a) (map (\<lambda>j. k * (10 powr (- 0.02)) ^ j) [1..<Suc n])"
    by (simp only: sorted_wrt_map)
  have "sorted_wrt (\<lambda>i j. k * ?hi ^ i < k * ?hi ^ j) [1..<Suc n]"
  proof (rule sorted_wrt_mono_rel [OF _ sorted_wrt_upt])
    fix i j :: nat
    assume "i < j"
    then have "?hi ^ i < ?hi ^ j" using hi by (rule power_strict_increasing)
    with assms show "k * ?hi ^ i < k * ?hi ^ j" by simp
  qed
  then show "sorted_wrt (\<lambda>a b. a < b) (map (\<lambda>j. k * (10 powr 0.02) ^ j) [1..<Suc n])"
    by (simp only: sorted_wrt_map)
qed

text \<open>
  The searches of \<open>gamma\<close> of KTR: the values tried are the fitted \<open>gamma\<close> moved by
  \<open>1, ..., n\<close> steps of \<open>0.02\<close>, and the entries reported are the pair fitted again at the
  last step that passed, or the fitted pair when there is none.
\<close>

lemma KTR_Vmb_CDF_KS_run:
  assumes "ks_run (\<lambda>gamma_i. if down then gamma_i > fst gamma_bounds
                               else gamma_i < snd gamma_bounds)
             (KTR_KS_test sp st vmb_average t k_bounds event cores logTrick init_guess
                lambda_KTR k do_bopt final_times0)
             (\<lambda>j. snd cdf_result + (if down then - 0.02 else 0.02) * real j) n fit p"
  shows "KTR_Vmb_CDF_KS sp st down vmb_average t k_bounds gamma_bounds event cores logTrick
           init_guess lambda_KTR k do_bopt final_times0 rate_conv cdf_result
           = Some (Inr ((case last_passed n fit p of
                           Some f \<Rightarrow> (fst f * rate_conv, snd f)
                         | None \<Rightarrow> (fst cdf_result * rate_conv, snd cdf_result)),
                        map (\<lambda>j. snd cdf_result + (if down then - 0.02 else 0.02) * real j)
                          [1..<Suc n]))"
proof -
  let ?d = "(if down then - 0.02 else 0.02) :: real"
  let ?xs = "\<lambda>j. snd cdf_result + ?d * real j"
  let ?step = "\<lambda>gamma_i::real. if down then gamma_i - 0.02 else gamma_i + 0.02"
  have step: "?step = (\<lambda>g. g + ?d)" by auto
  have xs: "?xs j = (?step ^^ j) (?xs 0)" for j
    by (simp only: step funpow_add_real)
  from ks_bracket_run [OF assms, of ?step] xs
  have "ks_bracket ?step
          (\<lambda>gamma_i. if down then gamma_i > fst gamma_bounds else gamma_i < snd gamma_bounds)
          (KTR_KS_test sp st vmb_average t k_bounds event cores logTrick init_guess
             lambda_KTR k do_bopt final_times0) (?xs 0) 0.06 None []
          = Some (Inr (last_passed n fit p, map ?xs [1..<Suc n]))"
    by blast
  then show ?thesis
    by (simp add: KTR_Vmb_CDF_KS_def del: upt_Suc)
qed

text \<open>
  Without the regulariser, and with a fit that keeps \<open>gamma\<close> inside its bounds, the
  \<open>gamma\<close> fitted at a step is the value tried, up to the width \<open>0.00000000001\<close> of the
  bounds.
\<close>

lemma KTR_KS_test_pins_gamma:
  assumes "fit_respects_bounds sp"
    and "KTR_KS_test sp st vmb_average t k_bounds event cores logTrick init_guess 0 k
           False final_times0 n gamma_i = Inr (f, p)"
  shows "gamma_i - 0.00000000001 \<le> snd f \<and> snd f \<le> gamma_i"
proof -
  from assms(2) obtain spline where
    "KTR_CDF_rate sp vmb_average t k_bounds (gamma_i - 0.00000000001, gamma_i) event
       cores logTrick (fst init_guess, gamma_i) 0 k False = Inr (f, spline)"
    by (auto simp: KTR_KS_test_def split: sum.splits prod.splits)
  then obtain g x y where
    "curve_fit sp g x y (fst init_guess, gamma_i)
       ((fst k_bounds, gamma_i - 0.00000000001), (snd k_bounds, gamma_i)) = Inr f"
    by (auto simp: KTR_CDF_rate_def Let_def split: sum.splits)
  with assms(1) show ?thesis
    unfolding fit_respects_bounds_def by fastforce
qed

text \<open>A fit that returns the upper bound of \<open>gamma\<close> keeps \<open>gamma\<close> inside its bounds.\<close>

lemma fit_respects_bounds_upper:
  "fit_respects_bounds
     (scipy_const\<lparr>curve_fit := (\<lambda>f x y p0 bounds.
        if snd (fst bounds) \<le> snd (snd bounds) then Inr (fst p0, snd (snd bounds))
        else Inl ValueError)\<rparr>)"
  by (auto simp: fit_respects_bounds_def split: if_splits)

lemma KTR_KS_test_regularised:
  "KTR_KS_test scipy_fixed stats_const
     [(Some 0, Some 0), (Some 1, Some 0), (Some 2, Some 0), (Some 3, Some 0)] [1] (None, None)
     [True] 4 False (1, 0.5) 1 0.1 False [1] n gamma_i = Inr ((1, 0.5), 1)"
  by (simp add: KTR_KS_test_def KTR_CDF_rate_def scipy_fixed_def scipy_const_def
      stats_const_def bool_index_def Let_def)

lemma KTR_KS_test_unregularised:
  "KTR_KS_test scipy_fixed stats_const
     [(Some 0, Some 0), (Some 1, Some 0), (Some 2, Some 0), (Some 3, Some 0)] [1] (None, None)
     [True] 4 False (1, 0.5) 0 0.1 False [1] n gamma_i = Inr ((1, gamma_i), 1)"
  by (simp add: KTR_KS_test_def KTR_CDF_rate_def scipy_fixed_def scipy_const_def
      stats_const_def bool_index_def Let_def)

text \<open>
  Claim C6, at the input where it fails. With the regulariser (\<open>lambda_KTR = 1\<close>) the fit of
  a step is an unconstrained minimisation, to which the bounds on \<open>gamma\<close> are not handed.
  The minimiser ends at \<open>(1, 1/2)\<close>, where the regulariser pulls for \<open>kIMD = 0.1\<close>. Started
  at the fitted pair \<open>(1, 0.5)\<close> with the bounds \<open>(0.49, 1)\<close> on \<open>gamma\<close>, the search
  downwards tries \<open>gamma = 0.48\<close>, which passes the test, and stops at the bound: the
  entry reported for \<^verbatim>\<open>"KTR Vmb CDF KS glo"\<close> is \<open>0.5\<close>, not the value \<open>0.48\<close> that was tried.
  Without the regulariser the same search reports \<open>0.48\<close>.
\<close>

theorem regularised_bracket_reports_fitted_gamma:
  "KTR_Vmb_CDF_KS scipy_fixed stats_const True
     [(Some 0, Some 0), (Some 1, Some 0), (Some 2, Some 0), (Some 3, Some 0)] [1] (None, None)
     (0.49, 1) [True] 4 False (1, 0.5) 1 0.1 False [1] 1 (1, 0.5)
     = Some (Inr ((1, 0.5), [0.48]))
   \<and> KTR_Vmb_CDF_KS scipy_fixed stats_const True
     [(Some 0, Some 0), (Some 1, Some 0), (Some 2, Some 0), (Some 3, Some 0)] [1] (None, None)
     (0.49, 1) [True] 4 False (1, 0.5) 0 0.1 False [1] 1 (1, 0.5)
     = Some (Inr ((1, 0.48), [0.48]))"
proof -
  have r: "ks_run (\<lambda>gamma_i. if True then gamma_i > fst (0.49 :: real, 1 :: real)
                               else gamma_i < snd (0.49 :: real, 1 :: real))
             (KTR_KS_test scipy_fixed stats_const
                [(Some 0, Some 0), (Some 1, Some 0), (Some 2, Some 0), (Some 3, Some 0)] [1]
                (None, None) [True] 4 False (1, 0.5) 1 0.1 False [1])
             (\<lambda>j. snd (1 :: real, 0.5 :: real) + (if True then - 0.02 else 0.02) * real j)
             1 (\<lambda>j. (1, 0.5)) (\<lambda>j. 1)"
    using KTR_KS_test_regularised [of 0 "0.48"] by (simp add: ks_run_def)
  have u: "ks_run (\<lambda>gamma_i. if True then gamma_i > fst (0.49 :: real, 1 :: real)
                               else gamma_i < snd (0.49 :: real, 1 :: real))
             (KTR_KS_test scipy_fixed stats_const
                [(Some 0, Some 0), (Some 1, Some 0), (Some 2, Some 0), (Some 3, Some 0)] [1]
                (None, None) [True] 4 False (1, 0.5) 0 0.1 False [1])
             (\<lambda>j. snd (1 :: real, 0.5 :: real) + (if True then - 0.02 else 0.02) * real j)
             1 (\<lambda>j. (1, 0.48)) (\<lambda>j. 1)"
    using KTR_KS_test_unregularised [of 0 "0.48"] by (simp add: ks_run_def)
  from KTR_Vmb_CDF_KS_run [OF r, of 1] KTR_Vmb_CDF_KS_run [OF u, of 1]
  show ?thesis by (simp add: last_passed_def)
qed

end
